theory Spec2Isabelle
  imports Main "HOL-Library.Word"
begin

unbundle bit_operations_syntax

section \<open>Bytes and the digest of crypto/md5\<close>

text \<open>
  A Go \<^verbatim>\<open>[]byte\<close> is a list of 8-bit words. A Go \<^verbatim>\<open>string\<close> that travels on the
  wire (the advertised address) is a byte sequence too, and is modelled as one; texts that
  only label an error or a log line are Isabelle strings.
\<close>

type_synonym byte = "8 word"
type_synonym u32 = "32 word"

text \<open>
  \<^verbatim>\<open>md5.Sum\<close> belongs to Go's standard library, not to the repository. It is the
  function of RFC 1321, written out here so that the digest check of the transport can be
  evaluated on concrete frames: the per-round shift amounts, the table of constants, the
  padding (a \<^verbatim>\<open>0x80\<close> byte, zeros up to 56 modulo 64, the bit length as 64-bit little
  endian), 64 steps per 64-byte block, and the four state words written little endian.
\<close>

definition md5_Size :: nat where
  "md5_Size = 16"

definition md5_shifts :: "nat list" where
  "md5_shifts =
    [7, 12, 17, 22, 7, 12, 17, 22, 7, 12, 17, 22, 7, 12, 17, 22,
     5, 9, 14, 20, 5, 9, 14, 20, 5, 9, 14, 20, 5, 9, 14, 20,
     4, 11, 16, 23, 4, 11, 16, 23, 4, 11, 16, 23, 4, 11, 16, 23,
     6, 10, 15, 21, 6, 10, 15, 21, 6, 10, 15, 21, 6, 10, 15, 21]"

definition md5_table :: "u32 list" where
  "md5_table =
    [0xd76aa478, 0xe8c7b756, 0x242070db, 0xc1bdceee, 0xf57c0faf, 0x4787c62a, 0xa8304613, 0xfd469501,
     0x698098d8, 0x8b44f7af, 0xffff5bb1, 0x895cd7be, 0x6b901122, 0xfd987193, 0xa679438e, 0x49b40821,
     0xf61e2562, 0xc040b340, 0x265e5a51, 0xe9b6c7aa, 0xd62f105d, 0x02441453, 0xd8a1e681, 0xe7d3fbc8,
     0x21e1cde6, 0xc33707d6, 0xf4d50d87, 0x455a14ed, 0xa9e3e905, 0xfcefa3f8, 0x676f02d9, 0x8d2a4c8a,
     0xfffa3942, 0x8771f681, 0x6d9d6122, 0xfde5380c, 0xa4beea44, 0x4bdecfa9, 0xf6bb4b60, 0xbebfbc70,
     0x289b7ec6, 0xeaa127fa, 0xd4ef3085, 0x04881d05, 0xd9d4d039, 0xe6db99e5, 0x1fa27cf8, 0xc4ac5665,
     0xf4292244, 0x432aff97, 0xab9423a7, 0xfc93a039, 0x655b59c3, 0x8f0ccc92, 0xffeff47d, 0x85845dd1,
     0x6fa87e4f, 0xfe2ce6e0, 0xa3014314, 0x4e0811a1, 0xf7537e82, 0xbd3af235, 0x2ad7d2bb, 0xeb86d391]"

definition le_bytes :: "nat \<Rightarrow> 'a::len word \<Rightarrow> byte list" where
  "le_bytes k w = map (\<lambda>i. ucast (drop_bit (8 * i) w)) [0..<k]"

definition u32_of_le :: "byte list \<Rightarrow> u32" where
  "u32_of_le bs = foldr (\<lambda>b acc. ucast b OR push_bit 8 acc) bs 0"

definition md5_pad :: "byte list \<Rightarrow> byte list" where
  "md5_pad m =
     m @ [0x80] @ replicate ((119 - length m mod 64) mod 64) 0
       @ le_bytes 8 (of_nat (8 * length m) :: 64 word)"

fun chunks :: "nat \<Rightarrow> nat \<Rightarrow> 'a list \<Rightarrow> 'a list list" where
  "chunks 0 k xs = []"
| "chunks (Suc n) k xs = take k xs # chunks n k (drop k xs)"

definition md5_step :: "u32 list \<Rightarrow> (u32 \<times> u32 \<times> u32 \<times> u32) \<Rightarrow> nat \<Rightarrow> (u32 \<times> u32 \<times> u32 \<times> u32)" where
  "md5_step x st i =
     (case st of (a, b, c, d) \<Rightarrow>
        let (f, g) =
              (if i < 16 then ((b AND c) OR (NOT b AND d), i)
               else if i < 32 then ((d AND b) OR (NOT d AND c), (5 * i + 1) mod 16)
               else if i < 48 then (b XOR c XOR d, (3 * i + 5) mod 16)
               else (c XOR (b OR NOT d), (7 * i) mod 16));
            f' = f + a + md5_table ! i + x ! g
        in (d, b + word_rotl (md5_shifts ! i) f', b, c))"

definition md5_block :: "(u32 \<times> u32 \<times> u32 \<times> u32) \<Rightarrow> byte list \<Rightarrow> (u32 \<times> u32 \<times> u32 \<times> u32)" where
  "md5_block st blk =
     (let x = map u32_of_le (chunks 16 4 blk)
      in case (st, foldl (md5_step x) st [0..<64]) of
           ((a0, b0, c0, d0), (a, b, c, d)) \<Rightarrow> (a0 + a, b0 + b, c0 + c, d0 + d))"

definition md5_Sum :: "byte list \<Rightarrow> byte list" where
  "md5_Sum m =
     (let p = md5_pad m
      in case foldl md5_block (0x67452301, 0xefcdab89, 0x98badcfe, 0x10325476)
                (chunks (length p div 64) 64 p) of
           (a, b, c, d) \<Rightarrow> concat (map (le_bytes 4) [a, b, c, d]))"

section \<open>Data model of the transport\<close>

text \<open>\<^verbatim>\<open>time.Duration\<close> and \<^verbatim>\<open>time.Time\<close> are counts of nanoseconds.\<close>

type_synonym duration = int
type_synonym time = int

definition Millisecond :: duration where
  "Millisecond = 1000000"

definition Second :: duration where
  "Second = 1000 * Millisecond"

text \<open>
  Modelled from the spec: the type \<^verbatim>\<open>messageType\<close> and its constants \<^verbatim>\<open>stream\<close> and
  \<^verbatim>\<open>packet\<close> are declared in a file of the package that is not among the sources; the
  frame layout of the specification gives \<^verbatim>\<open>0x01\<close> for a stream and \<^verbatim>\<open>0x02\<close> for a
  packet.
\<close>

definition stream :: byte where
  "stream = 0x01"

definition packet :: byte where
  "packet = 0x02"

text \<open>
  Modelled from the spec: the bind addresses \<^verbatim>\<open>zeroZeroZeroZero\<close> and \<^verbatim>\<open>colonColon\<close>
  are constants of the same missing file; the specification names them \<^verbatim>\<open>0.0.0.0\<close> and
  \<^verbatim>\<open>::\<close>.
\<close>

definition zeroZeroZeroZero :: string where
  "zeroZeroZeroZero = ''0.0.0.0''"

definition colonColon :: string where
  "colonColon = ''::''"

record QuicTransportConfig =
  BindAddrs :: "string list"
  BindPort :: int
  PacketDialTimeout :: duration
  PacketWriteTimeout :: duration
  TransportDebug :: bool

text \<open>The values \<^verbatim>\<open>RegisterFlagsWithPrefix\<close> gives the fields when no flag is set.\<close>

definition flagDefaults :: QuicTransportConfig where
  "flagDefaults =
     \<lparr>BindAddrs = [], BindPort = 7946, PacketDialTimeout = 2 * Second,
      PacketWriteTimeout = 5 * Second, TransportDebug = False\<rparr>"

text \<open>\<^verbatim>\<open>memberlist.Packet\<close>: payload, sender address and time of receipt.\<close>

record Packet =
  Buf :: "byte list"
  From :: "byte list"
  Timestamp :: time

text \<open>
  An inbound QUIC stream as the reader sees it: the bytes that arrive, and how the stream
  ends after them, by a clean end of stream or by a read error. The reads have no
  deadline, so a stream that does not end keeps its reader waiting; the model is of the
  streams that end.
\<close>

datatype stream_end = EOF | ReadError string

record Stream =
  pending :: "byte list"
  ending :: stream_end

text \<open>
  An accepted \<^verbatim>\<open>quic.Connection\<close>: the peer's address and what
  \<^verbatim>\<open>AcceptStream\<close> returns on it, an error or the first stream.
\<close>

record Connection =
  RemoteAddr :: string
  AcceptStream :: "string + Stream"

text \<open>The local address of a listener, and whether it has been closed.\<close>

record Listener =
  Addr_IP :: "byte list"
  Addr_Port :: int
  listener_closed :: bool

datatype level = Debug | Warn | Error

text \<open>Calls that leave the process: the dial of an outbound channel and the two steps
  that build an inbound listener.\<close>

datatype net_call =
    tls_DialWithDialer duration string string
  | net_ListenUDP string "byte list" int
  | quic_Transport_Listen "byte list" int

text \<open>
  The transport. The first group of fields is the Go struct (the counters count events, so
  they are naturals; the two channels are unbuffered, and each is modelled by the sequence
  of values sent on it, oldest first; \<^verbatim>\<open>wg\<close> is the number of acceptor workers the
  wait group counts). The second group records what the transport does to the outside:
  the connections it closed, the network calls it made, the handlers it started and the
  pauses of the accept loop.
\<close>

record QuicTransport =
  cfg :: QuicTransportConfig
  logger :: "(level \<times> string) list"
  packetCh :: "Packet list"
  connCh :: "Connection list"
  wg :: int
  quicListeners :: "Listener list"
  shutdown :: int
  advertiseAddr :: "byte list"
  incomingStreams :: nat
  outgoingStreams :: nat
  outgoingStreamErrors :: nat
  receivedPackets :: nat
  receivedPacketsBytes :: nat
  receivedPacketsErrors :: nat
  sentPackets :: nat
  sentPacketsBytes :: nat
  sentPacketsErrors :: nat
  unknownConnections :: nat
  closedConns :: "Connection list"
  netCalls :: "net_call list"
  handlers :: "Connection list"
  slept :: "duration list"

section \<open>Logging and stream reads\<close>

text \<open>A logger is a level, or nothing for \<^verbatim>\<open>noopLogger\<close>.\<close>

definition Log :: "level option \<Rightarrow> string \<Rightarrow> QuicTransport \<Rightarrow> QuicTransport" where
  "Log lg msg t = (case lg of None \<Rightarrow> t | Some l \<Rightarrow> t\<lparr>logger := logger t @ [(l, msg)]\<rparr>)"

definition debugLog :: "QuicTransport \<Rightarrow> level option" where
  "debugLog t = (if TransportDebug (cfg t) then Some Debug else None)"

text \<open>
  \<^verbatim>\<open>io.ReadFull\<close> with a buffer of \<open>n\<close> bytes: the bytes when that many arrive, otherwise
  an error (\<^verbatim>\<open>EOF\<close> when none arrived before the end, \<^verbatim>\<open>unexpected EOF\<close> when some
  did, or the read error of the stream). A buffer of length 0 reads nothing and succeeds.
\<close>

definition ReadFull :: "Stream \<Rightarrow> nat \<Rightarrow> string + (byte list \<times> Stream)" where
  "ReadFull str n =
     (if n \<le> length (pending str)
      then Inr (take n (pending str), str\<lparr>pending := drop n (pending str)\<rparr>)
      else Inl (case ending str of
                  EOF \<Rightarrow> (if pending str = [] then ''EOF'' else ''unexpected EOF'')
                | ReadError e \<Rightarrow> e))"

text \<open>\<^verbatim>\<open>io.ReadAll\<close>: everything up to a clean end of stream, or the read error.\<close>

definition ReadAll :: "Stream \<Rightarrow> string + byte list" where
  "ReadAll str = (case ending str of EOF \<Rightarrow> Inr (pending str) | ReadError e \<Rightarrow> Inl e)"

section \<open>The connection dispatcher\<close>

text \<open>
  The deferred function of \<^verbatim>\<open>handleConnection\<close>. Its body tests \<^verbatim>\<open>closeConn\<close>, but
  the call \<^verbatim>\<open>conn.Close()\<close> inside is commented out in the source, so both branches
  leave the connection as it is.
\<close>

definition deferred_close :: "bool \<Rightarrow> Connection \<Rightarrow> QuicTransport \<Rightarrow> QuicTransport" where
  "deferred_close closeConn conn t = (if closeConn then t else t)"

text \<open>The packet branch of \<^verbatim>\<open>handleConnection\<close>, after the counter of received packets.\<close>

definition handlePacket :: "time \<Rightarrow> Connection \<Rightarrow> Stream \<Rightarrow> QuicTransport \<Rightarrow> QuicTransport" where
  "handlePacket now conn str t =
     (case ReadFull str 1 of
        Inl err \<Rightarrow>
          Log (Some Warn) ''error while reading node address length from packet''
            (t\<lparr>receivedPacketsErrors := receivedPacketsErrors t + 1\<rparr>)
      | Inr (addrLengthBuf, str1) \<Rightarrow>
          (case ReadFull str1 (unat (addrLengthBuf ! 0)) of
             Inl err \<Rightarrow>
               Log (Some Warn) ''error while reading node address from packet''
                 (t\<lparr>receivedPacketsErrors := receivedPacketsErrors t + 1\<rparr>)
           | Inr (addrBuf, str2) \<Rightarrow>
               (case ReadAll str2 of
                  Inl err \<Rightarrow>
                    Log (Some Warn) ''error while reading packet data''
                      (t\<lparr>receivedPacketsErrors := receivedPacketsErrors t + 1\<rparr>)
                | Inr buf0 \<Rightarrow>
                    if length buf0 < md5_Size then
                      Log (Some Warn) ''not enough data received''
                        (t\<lparr>receivedPacketsErrors := receivedPacketsErrors t + 1\<rparr>)
                    else
                      let receivedDigest = drop (length buf0 - md5_Size) buf0;
                          buf = take (length buf0 - md5_Size) buf0;
                          expectedDigest = md5_Sum buf;
                          t1 = (if receivedDigest \<noteq> expectedDigest
                                then Log (Some Warn) ''packet digest mismatch''
                                       (t\<lparr>receivedPacketsErrors := receivedPacketsErrors t + 1\<rparr>)
                                else t);
                          t2 = Log (debugLog t1) ''Received packet'' t1;
                          t3 = t2\<lparr>receivedPacketsBytes := receivedPacketsBytes t2 + length buf\<rparr>
                      in t3\<lparr>packetCh := packetCh t3 @
                               [\<lparr>Buf = buf, From = addrBuf, Timestamp = now\<rparr>]\<rparr>)))"

definition handleConnection :: "time \<Rightarrow> Connection \<Rightarrow> QuicTransport \<Rightarrow> QuicTransport" where
  "handleConnection now conn t0 =
     (let t = Log (debugLog t0) ''New connection'' t0;
          closeConn = True
      in case AcceptStream conn of
           Inl err \<Rightarrow> deferred_close closeConn conn (Log (Some Warn) ''failed to accept stream'' t)
         | Inr str \<Rightarrow>
             (case ReadFull str 1 of
                Inl err \<Rightarrow>
                  deferred_close closeConn conn (Log (Some Warn) ''failed to read message type'' t)
              | Inr (msgType, str1) \<Rightarrow>
                  if msgType ! 0 = stream then
                    let t1 = t\<lparr>incomingStreams := incomingStreams t + 1\<rparr>;
                        closeConn = False
                    in deferred_close closeConn conn (t1\<lparr>connCh := connCh t1 @ [conn]\<rparr>)
                  else if msgType ! 0 = packet then
                    deferred_close closeConn conn
                      (handlePacket now conn str1 (t\<lparr>receivedPackets := receivedPackets t + 1\<rparr>))
                  else
                    deferred_close closeConn conn
                      (Log (Some Error) ''unknown message type''
                         (t\<lparr>unknownConnections := unknownConnections t + 1\<rparr>))))"

section \<open>The outbound side\<close>

text \<open>
  The errors \<^verbatim>\<open>writeTo\<close> returns, one constructor for each place that makes one, and
  the text \<^verbatim>\<open>err.Error()\<close> gives for it. \<^verbatim>\<open>DialFailed\<close> carries the error of the
  dial unchanged; the others are built by \<^verbatim>\<open>fmt.Errorf\<close>.
\<close>

datatype send_error =
    DialFailed string
  | LocalAddressTooLong
  | SettingDeadline string
  | SendingLocalAddress string
  | SendingData string
  | SendingDataShortWrite
  | DigestFailed string
  | DigestShortWrite
  | CloseFailed string

fun Error_text :: "send_error \<Rightarrow> string" where
  "Error_text (DialFailed e) = e"
| "Error_text LocalAddressTooLong = ''local address too long''"
| "Error_text (SettingDeadline e) = ''setting deadline: '' @ e"
| "Error_text (SendingLocalAddress e) = ''sending local address: '' @ e"
| "Error_text (SendingData e) = ''sending data: '' @ e"
| "Error_text SendingDataShortWrite = ''sending data: short write''"
| "Error_text (DigestFailed e) = ''digest: '' @ e"
| "Error_text DigestShortWrite = ''digest: short write''"
| "Error_text (CloseFailed e) = ''close: '' @ e"

text \<open>\<^verbatim>\<open>strings.Contains\<close>.\<close>

fun Contains :: "string \<Rightarrow> string \<Rightarrow> bool" where
  "Contains [] sub = (sub = [])"
| "Contains (c # s) sub = (take (length sub) (c # s) = sub \<or> Contains s sub)"

text \<open>
  What the network answers on one outbound channel: the error of the dial (or none), of
  \<^verbatim>\<open>SetDeadline\<close>, of \<^verbatim>\<open>Close\<close>, and for the \<open>k\<close>-th call of \<^verbatim>\<open>Write\<close> with a given
  buffer the count of bytes taken and the error; and the two readings of the clock, the one
  the deadline is computed from and the one \<^verbatim>\<open>WriteTo\<close> returns.
\<close>

record peer =
  Dial_err :: "string option"
  SetDeadline_err :: "string option"
  Write_res :: "nat \<Rightarrow> byte list \<Rightarrow> nat \<times> string option"
  Close_err :: "string option"
  Now_deadline :: time
  Now_return :: time

text \<open>The \<^verbatim>\<open>net.Conn\<close> of an outbound channel: the bytes written to it so far, the
  number of writes, the deadline and whether it is closed.\<close>

record Conn =
  written :: "byte list"
  writes :: nat
  deadline :: "time option"
  conn_closed :: bool

definition Write :: "peer \<Rightarrow> Conn \<Rightarrow> byte list \<Rightarrow> nat \<times> string option \<times> Conn" where
  "Write pr c buf =
     (case Write_res pr (writes c) buf of
        (n, err) \<Rightarrow> (n, err, c\<lparr>written := written c @ take n buf, writes := writes c + 1\<rparr>))"

definition SetDeadline :: "peer \<Rightarrow> time \<Rightarrow> Conn \<Rightarrow> string option \<times> Conn" where
  "SetDeadline pr d c =
     (case SetDeadline_err pr of
        Some e \<Rightarrow> (Some e, c)
      | None \<Rightarrow> (None, c\<lparr>deadline := Some d\<rparr>))"

definition Close :: "peer \<Rightarrow> Conn \<Rightarrow> string option \<times> Conn" where
  "Close pr c = (Close_err pr, c\<lparr>conn_closed := True\<rparr>)"

definition getConnection ::
    "peer \<Rightarrow> string \<Rightarrow> duration \<Rightarrow> QuicTransport \<Rightarrow> (string + Conn) \<times> QuicTransport" where
  "getConnection pr addr timeout t =
     ((case Dial_err pr of
         Some e \<Rightarrow> Inl e
       | None \<Rightarrow> Inr \<lparr>written = [], writes = 0, deadline = None, conn_closed = False\<rparr>),
      t\<lparr>netCalls := netCalls t @ [tls_DialWithDialer timeout ''udp'' addr]\<rparr>)"

definition getAdvertisedAddr :: "QuicTransport \<Rightarrow> byte list" where
  "getAdvertisedAddr t = advertiseAddr t"

text \<open>
  \<^verbatim>\<open>writeTo\<close>. The result is the error (or none), the channel as the call leaves it (none
  when the dial failed) and the transport. \<open>failed\<close> is a return with an error while
  \<^verbatim>\<open>closed\<close> is still false: the deferred function closes the channel and drops the
  error of the close.
\<close>

definition failed :: "peer \<Rightarrow> send_error \<Rightarrow> Conn \<Rightarrow> QuicTransport
    \<Rightarrow> send_error option \<times> Conn option \<times> QuicTransport" where
  "failed pr e c t = (Some e, Some (snd (Close pr c)), t)"

definition writeTo :: "peer \<Rightarrow> byte list \<Rightarrow> string \<Rightarrow> QuicTransport
    \<Rightarrow> send_error option \<times> Conn option \<times> QuicTransport" where
  "writeTo pr b addr t0 =
     (case getConnection pr addr (PacketDialTimeout (cfg t0)) t0 of
        (Inl err, t) \<Rightarrow> (Some (DialFailed err), None, t)
      | (Inr c, t) \<Rightarrow>
          let digest = md5_Sum b;
              headerBuf = [packet];
              ourAddr = getAdvertisedAddr t
          in if length ourAddr > 255 then failed pr LocalAddressTooLong c t
             else
               let headerBuf = headerBuf @ [of_nat (length ourAddr)] @ ourAddr
               in case (if PacketWriteTimeout (cfg t) > 0
                        then SetDeadline pr (Now_deadline pr + PacketWriteTimeout (cfg t)) c
                        else (None, c)) of
                    (Some err, c1) \<Rightarrow> failed pr (SettingDeadline err) c1 t
                  | (None, c1) \<Rightarrow>
                      (case Write pr c1 headerBuf of
                         (_, Some err, c2) \<Rightarrow> failed pr (SendingLocalAddress err) c2 t
                       | (_, None, c2) \<Rightarrow>
                           (case Write pr c2 b of
                              (n, Some err, c3) \<Rightarrow> failed pr (SendingData err) c3 t
                            | (n, None, c3) \<Rightarrow>
                                if n \<noteq> length b then failed pr SendingDataShortWrite c3 t
                                else
                                  (case Write pr c3 digest of
                                     (n, Some err, c4) \<Rightarrow> failed pr (DigestFailed err) c4 t
                                   | (n, None, c4) \<Rightarrow>
                                       if n \<noteq> length digest then failed pr DigestShortWrite c4 t
                                       else
                                         (case Close pr c4 of
                                            (Some err, c5) \<Rightarrow> (Some (CloseFailed err), Some c5, t)
                                          | (None, c5) \<Rightarrow>
                                              (None, Some c5,
                                               Log (debugLog t) ''WriteTo: packet sent'' t))))))"

text \<open>\<^verbatim>\<open>WriteTo\<close> returns the pair of the send time and the error; the channel is kept
  beside it, as in \<open>writeTo\<close>.\<close>

definition WriteTo :: "peer \<Rightarrow> byte list \<Rightarrow> string \<Rightarrow> QuicTransport
    \<Rightarrow> (time \<times> send_error option) \<times> Conn option \<times> QuicTransport" where
  "WriteTo pr b addr t0 =
     (let t1 = t0\<lparr>sentPackets := sentPackets t0 + 1\<rparr>;
          t2 = t1\<lparr>sentPacketsBytes := sentPacketsBytes t1 + length b\<rparr>
      in case writeTo pr b addr t2 of
           (Some err, c, t3) \<Rightarrow>
             let t4 = t3\<lparr>sentPacketsErrors := sentPacketsErrors t3 + 1\<rparr>;
                 logLevel = (if Contains (Error_text err) ''connection refused''
                             then debugLog t4 else Some Warn)
             in ((Now_return pr, None), c, Log logLevel ''WriteTo failed'' t4)
         | (None, c, t3) \<Rightarrow> ((Now_return pr, None), c, t3))"

definition DialTimeout :: "peer \<Rightarrow> string \<Rightarrow> duration \<Rightarrow> QuicTransport
    \<Rightarrow> (string + Conn) \<times> QuicTransport" where
  "DialTimeout pr addr timeout t0 =
     (case getConnection pr addr timeout (t0\<lparr>outgoingStreams := outgoingStreams t0 + 1\<rparr>) of
        (Inl err, t) \<Rightarrow> (Inl err, t\<lparr>outgoingStreamErrors := outgoingStreamErrors t + 1\<rparr>)
      | (Inr c, t) \<Rightarrow>
          (case Write pr c [stream] of
             (_, Some err, c1) \<Rightarrow>
               (Inl err, t\<lparr>outgoingStreamErrors := outgoingStreamErrors t + 1\<rparr>)
           | (_, None, c1) \<Rightarrow> (Inr c1, t)))"

section \<open>Construction, listeners and the advertised address\<close>

text \<open>
  A \<^verbatim>\<open>net.IP\<close> is a byte slice of length 4 or 16. \<^verbatim>\<open>To4\<close> is the method of the
  standard library: the four bytes of an IPv4 address, also when it is held in the
  16-byte IPv4-in-IPv6 form, and nothing for any other address. The transport does not
  call it; it serves to describe hosts, on which \<^verbatim>\<open>net.ListenUDP\<close> refuses on the
  network \<^verbatim>\<open>udp4\<close> an address without IPv4 form.
\<close>

definition To4 :: "byte list \<Rightarrow> byte list option" where
  "To4 ip =
     (if length ip = 4 then Some ip
      else if length ip = 16 \<and> take 10 ip = replicate 10 0 \<and> ip ! 10 = 0xff \<and> ip ! 11 = 0xff
      then Some (drop 12 ip)
      else None)"

text \<open>
  The host the transport is built on: the result of \<^verbatim>\<open>GetTLSConfig\<close> (its error, if
  any), \<^verbatim>\<open>net.ParseIP\<close>, the answer of \<^verbatim>\<open>net.ListenUDP\<close> for a network, an
  address and a port, given the listeners already bound (an error, or the local address and
  port of the socket), the error of \<^verbatim>\<open>quic.Transport.Listen\<close>, the two lookups of a
  private address, and the text \<^verbatim>\<open>net.UDPAddr.String\<close> prints. All of these belong to
  the standard library, to other packages or to the kernel; what a claim needs of them is
  a hypothesis of its theorem.
\<close>

record host =
  GetTLSConfig_err :: "string option"
  ParseIP :: "string \<Rightarrow> byte list option"
  ListenUDP :: "string \<Rightarrow> Listener list \<Rightarrow> byte list \<Rightarrow> int \<Rightarrow> string + (byte list \<times> int)"
  quic_Listen_err :: "Listener list \<Rightarrow> byte list \<Rightarrow> int \<Rightarrow> string option"
  GetPrivateIP :: "string + string"
  GetFirstAddressOf :: "string + string"
  UDPAddr_String :: "byte list \<Rightarrow> int \<Rightarrow> byte list"

datatype construct_error =
    UnableToCreateTLSConfig string
  | CouldNotParseBindAddr string
  | FailedToStartUDPListener string int string
  | FailedToStartQuicListener string int string

text \<open>The struct literal of \<^verbatim>\<open>NewQuicTransport\<close>: every other field has its zero value.\<close>

definition newTransport :: "QuicTransportConfig \<Rightarrow> QuicTransport" where
  "newTransport config =
     \<lparr>cfg = config, logger = [], packetCh = [], connCh = [], wg = 0, quicListeners = [],
      shutdown = 0, advertiseAddr = [],
      incomingStreams = 0, outgoingStreams = 0, outgoingStreamErrors = 0,
      receivedPackets = 0, receivedPacketsBytes = 0, receivedPacketsErrors = 0,
      sentPackets = 0, sentPacketsBytes = 0, sentPacketsErrors = 0, unknownConnections = 0,
      closedConns = [], netCalls = [], handlers = [], slept = []\<rparr>"

text \<open>
  \<^verbatim>\<open>Shutdown\<close> stores the flag and closes every listener. The wait on the wait group
  that follows returns once the acceptor workers have left; it changes no field.
\<close>

definition Shutdown :: "QuicTransport \<Rightarrow> QuicTransport" where
  "Shutdown t =
     t\<lparr>shutdown := 1,
       quicListeners := map (\<lambda>l. l\<lparr>listener_closed := True\<rparr>) (quicListeners t)\<rparr>"

text \<open>
  The loop of \<^verbatim>\<open>NewQuicTransport\<close> over the bind addresses, with the variable
  \<^verbatim>\<open>port\<close>. A return with an error leaves the loop with the transport as it is then.
\<close>

fun bindAll :: "host \<Rightarrow> string list \<Rightarrow> int \<Rightarrow> QuicTransport
    \<Rightarrow> (construct_error \<times> QuicTransport) + QuicTransport" where
  "bindAll h [] port t = Inr t"
| "bindAll h (addr # addrs) port t =
     (case ParseIP h addr of
        None \<Rightarrow> Inl (CouldNotParseBindAddr addr, t)
      | Some ip \<Rightarrow>
          let t1 = t\<lparr>netCalls := netCalls t @ [net_ListenUDP ''udp4'' ip port]\<rparr>
          in case ListenUDP h ''udp4'' (quicListeners t1) ip port of
               Inl err \<Rightarrow> Inl (FailedToStartUDPListener addr port err, t1)
             | Inr (lip, lport) \<Rightarrow>
                 let t2 = t1\<lparr>netCalls := netCalls t1 @ [quic_Transport_Listen lip lport]\<rparr>
                 in case quic_Listen_err h (quicListeners t2) lip lport of
                      Some err \<Rightarrow> Inl (FailedToStartQuicListener addr port err, t2)
                    | None \<Rightarrow>
                        let quickLn = \<lparr>Addr_IP = lip, Addr_Port = lport, listener_closed = False\<rparr>;
                            t3 = t2\<lparr>quicListeners := quicListeners t2 @ [quickLn]\<rparr>;
                            port = (if port = 0 then Addr_Port quickLn else port)
                        in bindAll h addrs port t3)"

text \<open>
  \<^verbatim>\<open>NewQuicTransport\<close>. On the left, the error together with the transport the call
  leaves behind (after the deferred \<^verbatim>\<open>Shutdown\<close>, which is registered only once the
  TLS configuration is there); on the right, the transport with one acceptor worker
  counted for each bind address.
\<close>

definition NewQuicTransport :: "host \<Rightarrow> QuicTransportConfig
    \<Rightarrow> (construct_error \<times> QuicTransport) + QuicTransport" where
  "NewQuicTransport h config0 =
     (let config = (if length (BindAddrs config0) = 0
                    then config0\<lparr>BindAddrs := [zeroZeroZeroZero]\<rparr> else config0);
          t = newTransport config
      in case GetTLSConfig_err h of
           Some err \<Rightarrow> Inl (UnableToCreateTLSConfig err, t)
         | None \<Rightarrow>
             (case bindAll h (BindAddrs config) (BindPort config) t of
                Inl (err, t1) \<Rightarrow> Inl (err, Shutdown t1)
              | Inr t1 \<Rightarrow> Inr (t1\<lparr>wg := wg t1 + int (length (BindAddrs config))\<rparr>)))"

text \<open>\<^verbatim>\<open>GetAutoBindPort\<close> reads listener 0; without one the index is out of range and
  the call panics, which is \<open>None\<close>.\<close>

definition GetAutoBindPort :: "QuicTransport \<Rightarrow> int option" where
  "GetAutoBindPort t =
     (case quicListeners t of [] \<Rightarrow> None | l # _ \<Rightarrow> Some (Addr_Port l))"

definition setAdvertisedAddr :: "host \<Rightarrow> byte list \<Rightarrow> int \<Rightarrow> QuicTransport \<Rightarrow> QuicTransport" where
  "setAdvertisedAddr h advertiseIP advertisePort t =
     t\<lparr>advertiseAddr := UDPAddr_String h advertiseIP advertisePort\<rparr>"

datatype advertise_error =
    FailedToParseAdvertiseAddress string
  | FailedToGetInterfaceAddresses string
  | NoPrivateIPAddressFound
  | FailedToGetPrivateInet6Address string
  | FailedToParseInet6AdvertiseAddress string
  | IndexOutOfRange

text \<open>The end of \<^verbatim>\<open>FinalAdvertiseAddr\<close>: the debug line, the cache, the result.\<close>

definition advertise :: "host \<Rightarrow> byte list \<Rightarrow> int \<Rightarrow> QuicTransport
    \<Rightarrow> (advertise_error + (byte list \<times> int)) \<times> QuicTransport" where
  "advertise h advertiseIP advertisePort t =
     (Inr (advertiseIP, advertisePort),
      setAdvertisedAddr h advertiseIP advertisePort (Log (Some Debug) ''FinalAdvertiseAddr'' t))"

text \<open>The port of the else-branch: \<^verbatim>\<open>GetAutoBindPort\<close>, then the common end.\<close>

definition advertiseBound :: "host \<Rightarrow> byte list \<Rightarrow> QuicTransport
    \<Rightarrow> (advertise_error + (byte list \<times> int)) \<times> QuicTransport" where
  "advertiseBound h advertiseIP t =
     (case GetAutoBindPort t of
        None \<Rightarrow> (Inl IndexOutOfRange, t)
      | Some advertisePort \<Rightarrow> advertise h advertiseIP advertisePort t)"

definition FinalAdvertiseAddr :: "host \<Rightarrow> string \<Rightarrow> int \<Rightarrow> QuicTransport
    \<Rightarrow> (advertise_error + (byte list \<times> int)) \<times> QuicTransport" where
  "FinalAdvertiseAddr h ip port t =
     (if ip \<noteq> [] then
        (case ParseIP h ip of
           None \<Rightarrow> (Inl (FailedToParseAdvertiseAddress ip), t)
         | Some advertiseIP \<Rightarrow> advertise h advertiseIP port t)
      else
        (case BindAddrs (cfg t) of
           [] \<Rightarrow> (Inl IndexOutOfRange, t)
         | first # _ \<Rightarrow>
             if first = zeroZeroZeroZero then
               (case GetPrivateIP h of
                  Inl err \<Rightarrow> (Inl (FailedToGetInterfaceAddresses err), t)
                | Inr ip \<Rightarrow>
                    if ip = [] then (Inl NoPrivateIPAddressFound, t)
                    else (case ParseIP h ip of
                            None \<Rightarrow> (Inl (FailedToParseAdvertiseAddress ip), t)
                          | Some advertiseIP \<Rightarrow> advertiseBound h advertiseIP t))
             else if first = colonColon then
               (case GetFirstAddressOf h of
                  Inl err \<Rightarrow> (Inl (FailedToGetPrivateInet6Address err), t)
                | Inr inet6Ip \<Rightarrow>
                    (case ParseIP h inet6Ip of
                       None \<Rightarrow> (Inl (FailedToParseInet6AdvertiseAddress ip), t)
                     | Some advertiseIP \<Rightarrow> advertiseBound h advertiseIP t))
             else
               (case quicListeners t of
                  [] \<Rightarrow> (Inl IndexOutOfRange, t)
                | l # _ \<Rightarrow> advertiseBound h (Addr_IP l) t)))"

section \<open>The accept loop\<close>

definition baseDelay :: duration where
  "baseDelay = 5 * Millisecond"

definition maxDelay :: duration where
  "maxDelay = 1 * Second"

text \<open>
  One return of \<^verbatim>\<open>Accept\<close>: a connection or an error, paired with the value
  \<^verbatim>\<open>shutdown.Load()\<close> has at that moment (the loop reads it only after an error).
\<close>

datatype accepted = Accepted Connection | AcceptError string

text \<open>The value of \<^verbatim>\<open>loopDelay\<close> after one more error.\<close>

definition nextDelay :: "duration \<Rightarrow> duration" where
  "nextDelay loopDelay =
     (let loopDelay = (if loopDelay = 0 then baseDelay else loopDelay * 2)
      in if loopDelay > maxDelay then maxDelay else loopDelay)"

text \<open>
  \<^verbatim>\<open>quicListen\<close> on the returns of \<^verbatim>\<open>Accept\<close> it gets, from a given \<^verbatim>\<open>loopDelay\<close>
  (0 at the start). The result is \<open>None\<close> when the loop has left and the worker is done,
  and the current \<^verbatim>\<open>loopDelay\<close> when it waits in \<^verbatim>\<open>Accept\<close> again; pauses go to
  \<open>slept\<close>, started handlers to \<open>handlers\<close>.
\<close>

fun quicListen :: "(accepted \<times> int) list \<Rightarrow> duration \<Rightarrow> QuicTransport
    \<Rightarrow> duration option \<times> QuicTransport" where
  "quicListen [] loopDelay t = (Some loopDelay, t)"
| "quicListen ((AcceptError err, s) # rest) loopDelay t =
     (if s = 1 then (None, t\<lparr>wg := wg t - 1\<rparr>)
      else
        let loopDelay = nextDelay loopDelay;
            t1 = Log (Some Error) ''Error accepting Quic connection'' t
        in quicListen rest loopDelay (t1\<lparr>slept := slept t1 @ [loopDelay]\<rparr>))"
| "quicListen ((Accepted conn, s) # rest) loopDelay t =
     (let loopDelay = 0
      in quicListen rest loopDelay (t\<lparr>handlers := handlers t @ [conn]\<rparr>))"

text \<open>
  The pauses as the specification words them, for comparison with \<open>quicListen\<close>: an
  exponential backoff with a floor of 5 ms and a cap of 1 s, doubled on each consecutive
  error and reset by a successful accept, which ends when an error comes under shutdown.
  \<open>n\<close> is the number of errors in a row so far.
\<close>

fun backoffSchedule :: "nat \<Rightarrow> (accepted \<times> int) list \<Rightarrow> duration list" where
  "backoffSchedule n [] = []"
| "backoffSchedule n ((AcceptError err, s) # rest) =
     (if s = 1 then []
      else min (5 * Millisecond * 2 ^ n) (1 * Second) # backoffSchedule (Suc n) rest)"
| "backoffSchedule n ((Accepted conn, s) # rest) = backoffSchedule 0 rest"

section \<open>What a run shows of the listeners\<close>

text \<open>The ports the transport asks \<^verbatim>\<open>net.ListenUDP\<close> for, in the order of the calls.\<close>

fun requestedPort :: "net_call \<Rightarrow> int list" where
  "requestedPort (net_ListenUDP network ip port) = [port]"
| "requestedPort (tls_DialWithDialer timeout network addr) = []"
| "requestedPort (quic_Transport_Listen ip port) = []"

definition requestedPorts :: "net_call list \<Rightarrow> int list" where
  "requestedPorts calls = concat (map requestedPort calls)"

text \<open>A call of \<^verbatim>\<open>net.ListenUDP\<close> is on the network \<^verbatim>\<open>udp4\<close>.\<close>

fun udp4Only :: "net_call \<Rightarrow> bool" where
  "udp4Only (net_ListenUDP network ip port) = (network = ''udp4'')"
| "udp4Only (tls_DialWithDialer timeout network addr) = True"
| "udp4Only (quic_Transport_Listen ip port) = True"

text \<open>A call that builds a listener, as opposed to the dial of an outbound channel.\<close>

fun listenerCall :: "net_call \<Rightarrow> bool" where
  "listenerCall (tls_DialWithDialer timeout network addr) = False"
| "listenerCall (net_ListenUDP network ip port) = True"
| "listenerCall (quic_Transport_Listen ip port) = True"

text \<open>The sockets \<^verbatim>\<open>quic.Transport.Listen\<close> was called on, in the order of the calls.\<close>

fun quicListenCall :: "net_call \<Rightarrow> (byte list \<times> int) list" where
  "quicListenCall (quic_Transport_Listen ip port) = [(ip, port)]"
| "quicListenCall (tls_DialWithDialer timeout network addr) = []"
| "quicListenCall (net_ListenUDP network ip port) = []"

definition quicListened :: "net_call list \<Rightarrow> (byte list \<times> int) list" where
  "quicListened calls = concat (map quicListenCall calls)"

section \<open>Facts about the digest and the reads\<close>

lemma length_le_bytes: "length (le_bytes k w) = k"
  by (simp add: le_bytes_def)

lemma length_md5_Sum: "length (md5_Sum m) = md5_Size"
  by (simp add: md5_Sum_def md5_Size_def Let_def length_le_bytes split: prod.split)

text \<open>The first vector of the test suite of RFC 1321: the digest of the empty message.\<close>

lemma md5_Sum_empty:
  "md5_Sum [] =
     [0xd4, 0x1d, 0x8c, 0xd9, 0x8f, 0x00, 0xb2, 0x04, 0xe9, 0x80, 0x09, 0x98, 0xec, 0xf8, 0x42, 0x7e]"
  by code_simp

lemma Log_fields:
  "cfg (Log lg m t) = cfg t"
  "packetCh (Log lg m t) = packetCh t"
  "connCh (Log lg m t) = connCh t"
  "wg (Log lg m t) = wg t"
  "quicListeners (Log lg m t) = quicListeners t"
  "shutdown (Log lg m t) = shutdown t"
  "advertiseAddr (Log lg m t) = advertiseAddr t"
  "incomingStreams (Log lg m t) = incomingStreams t"
  "outgoingStreams (Log lg m t) = outgoingStreams t"
  "outgoingStreamErrors (Log lg m t) = outgoingStreamErrors t"
  "receivedPackets (Log lg m t) = receivedPackets t"
  "receivedPacketsBytes (Log lg m t) = receivedPacketsBytes t"
  "receivedPacketsErrors (Log lg m t) = receivedPacketsErrors t"
  "sentPackets (Log lg m t) = sentPackets t"
  "sentPacketsBytes (Log lg m t) = sentPacketsBytes t"
  "sentPacketsErrors (Log lg m t) = sentPacketsErrors t"
  "unknownConnections (Log lg m t) = unknownConnections t"
  "closedConns (Log lg m t) = closedConns t"
  "netCalls (Log lg m t) = netCalls t"
  "handlers (Log lg m t) = handlers t"
  "slept (Log lg m t) = slept t"
  by (simp_all add: Log_def split: option.split)

lemma logger_Log:
  "logger (Log lg m t) = logger t @ (case lg of None \<Rightarrow> [] | Some l \<Rightarrow> [(l, m)])"
  by (simp add: Log_def split: option.split)

lemma debugLog_Log: "debugLog (Log lg m t) = debugLog t"
  by (simp add: debugLog_def Log_fields)

lemma ReadFull_ok:
  "n \<le> length (pending str) \<Longrightarrow>
   ReadFull str n = Inr (take n (pending str), str\<lparr>pending := drop n (pending str)\<rparr>)"
  by (simp add: ReadFull_def)

lemma handleConnection_packet:
  assumes "AcceptStream conn = Inr str" and "pending str = packet # rest"
  shows "handleConnection now conn t =
           handlePacket now conn (str\<lparr>pending := rest\<rparr>)
             ((Log (debugLog t) ''New connection'' t)
                \<lparr>receivedPackets := receivedPackets t + 1\<rparr>)"
  using assms
  by (simp add: handleConnection_def ReadFull_def deferred_close_def Let_def Log_fields
        packet_def stream_def)

lemma handlePacket_frame:
  assumes "pending str = L # a @ p @ d" and "ending str = EOF"
      and "length a = unat L" and "length d = md5_Size"
  shows "handlePacket now conn str t =
     (let t1 = (if d \<noteq> md5_Sum p
                then Log (Some Warn) ''packet digest mismatch''
                       (t\<lparr>receivedPacketsErrors := receivedPacketsErrors t + 1\<rparr>)
                else t);
          t2 = Log (debugLog t1) ''Received packet'' t1;
          t3 = t2\<lparr>receivedPacketsBytes := receivedPacketsBytes t2 + length p\<rparr>
      in t3\<lparr>packetCh := packetCh t3 @ [\<lparr>Buf = p, From = a, Timestamp = now\<rparr>]\<rparr>)"
  using assms
  by (simp add: handlePacket_def ReadFull_def ReadAll_def Let_def)


section \<open>Inbound packets\<close>

text \<open>No path of the dispatcher closes the connection it was given.\<close>

lemma handleConnection_never_closes:
  "closedConns (handleConnection now conn t) = closedConns t"
  by (simp add: handleConnection_def handlePacket_def deferred_close_def Let_def Log_fields
        split: sum.split prod.split)

text \<open>
  Claim C2. An inbound packet is a stream that carries the packet byte, the length byte, the
  address of that length, a payload \<open>p\<close> and 16 more bytes \<open>d\<close>, and then ends. When
  \<open>d\<close> is not the MD5 digest of \<open>p\<close>, \<open>handleConnection\<close> adds one to
  \<open>receivedPacketsErrors\<close>, logs the mismatch at warn level, and all the same sends the
  packet on \<open>packetCh\<close>, with the unchecked payload \<open>p\<close> and the sender address read from
  the frame.
\<close>

theorem digest_mismatch_counted_logged_delivered:
  assumes "AcceptStream conn = Inr str"
      and "pending str = [packet, L] @ a @ p @ d" and "ending str = EOF"
      and "length a = unat L" and "length d = md5_Size" and "d \<noteq> md5_Sum p"
  shows "receivedPacketsErrors (handleConnection now conn t) = receivedPacketsErrors t + 1
       \<and> logger (handleConnection now conn t) =
           logger t @ (if TransportDebug (cfg t) then [(Debug, ''New connection'')] else [])
             @ [(Warn, ''packet digest mismatch'')]
             @ (if TransportDebug (cfg t) then [(Debug, ''Received packet'')] else [])
       \<and> packetCh (handleConnection now conn t) =
           packetCh t @ [\<lparr>Buf = p, From = a, Timestamp = now\<rparr>]"
proof -
  from assms(2) have pend: "pending str = packet # (L # a @ p @ d)" by simp
  have rest: "pending (str\<lparr>pending := L # a @ p @ d\<rparr>) = L # a @ p @ d"
    and fin: "ending (str\<lparr>pending := L # a @ p @ d\<rparr>) = EOF"
    using assms(3) by simp_all
  show ?thesis
    unfolding handleConnection_packet [OF assms(1) pend]
      handlePacket_frame [OF rest fin assms(4) assms(5)]
    using assms(6)
    by (simp add: Let_def Log_fields logger_Log debugLog_def)
qed

text \<open>An instance: an empty payload followed by sixteen zero bytes.\<close>

theorem digest_mismatch_counted_logged_delivered_witness:
  "AcceptStream \<lparr>RemoteAddr = ''10.0.0.9:51000'',
      AcceptStream = Inr \<lparr>pending = [0x02, 0x00,
          0, 0, 0, 0, 0, 0, 0, 0, 0, 0, 0, 0, 0, 0, 0, 0], ending = EOF\<rparr>\<rparr>
     = Inr \<lparr>pending = [0x02, 0x00,
          0, 0, 0, 0, 0, 0, 0, 0, 0, 0, 0, 0, 0, 0, 0, 0], ending = EOF\<rparr>
   \<and> [0, 0, 0, 0, 0, 0, 0, 0, 0, 0, 0, 0, 0, 0, 0, 0 :: byte] \<noteq> md5_Sum []
   \<and> receivedPacketsErrors (handleConnection 7
        \<lparr>RemoteAddr = ''10.0.0.9:51000'',
         AcceptStream = Inr \<lparr>pending = [0x02, 0x00,
          0, 0, 0, 0, 0, 0, 0, 0, 0, 0, 0, 0, 0, 0, 0, 0], ending = EOF\<rparr>\<rparr>
        (newTransport flagDefaults)) = 1
   \<and> packetCh (handleConnection 7
        \<lparr>RemoteAddr = ''10.0.0.9:51000'',
         AcceptStream = Inr \<lparr>pending = [0x02, 0x00,
          0, 0, 0, 0, 0, 0, 0, 0, 0, 0, 0, 0, 0, 0, 0, 0], ending = EOF\<rparr>\<rparr>
        (newTransport flagDefaults)) = [\<lparr>Buf = [], From = [], Timestamp = 7\<rparr>]"
proof -
  have ne: "[0, 0, 0, 0, 0, 0, 0, 0, 0, 0, 0, 0, 0, 0, 0, 0 :: byte] \<noteq> md5_Sum []"
    by (simp add: md5_Sum_empty)
  show ?thesis
    using ne digest_mismatch_counted_logged_delivered
      [of "\<lparr>RemoteAddr = ''10.0.0.9:51000'',
            AcceptStream = Inr \<lparr>pending = [0x02, 0x00,
          0, 0, 0, 0, 0, 0, 0, 0, 0, 0, 0, 0, 0, 0, 0, 0], ending = EOF\<rparr>\<rparr>"
          "\<lparr>pending = [0x02, 0x00,
          0, 0, 0, 0, 0, 0, 0, 0, 0, 0, 0, 0, 0, 0, 0, 0], ending = EOF\<rparr>"
          0 "[]" "[]" "[0, 0, 0, 0, 0, 0, 0, 0, 0, 0, 0, 0, 0, 0, 0, 0]" 7 "newTransport flagDefaults"]
    by (simp add: packet_def md5_Size_def newTransport_def)
qed

text \<open>
  Claim C1 says that a connection opening with the packet byte ends in one of two ways: a
  frame that passes the digest check is delivered, or \<open>receivedPacketsErrors\<close> grows and
  nothing is delivered. The code does neither on the frame \<^verbatim>\<open>02 00\<close> followed by sixteen
  zero bytes: the zeros are not the digest of the empty payload, the error counter goes to
  1, and the packet is sent on \<open>packetCh\<close>. The four other error branches of the packet
  path return after counting; the mismatch branch lacks the return.
\<close>

theorem wrong_digest_packet_reaches_packetCh:
  "[0, 0, 0, 0, 0, 0, 0, 0, 0, 0, 0, 0, 0, 0, 0, 0 :: byte] \<noteq> md5_Sum []
   \<and> packetCh (handleConnection 7
        \<lparr>RemoteAddr = ''10.0.0.9:51000'',
         AcceptStream = Inr \<lparr>pending = [0x02, 0x00,
          0, 0, 0, 0, 0, 0, 0, 0, 0, 0, 0, 0, 0, 0, 0, 0], ending = EOF\<rparr>\<rparr>
        (newTransport flagDefaults)) = [\<lparr>Buf = [], From = [], Timestamp = 7\<rparr>]
   \<and> receivedPacketsErrors (handleConnection 7
        \<lparr>RemoteAddr = ''10.0.0.9:51000'',
         AcceptStream = Inr \<lparr>pending = [0x02, 0x00,
          0, 0, 0, 0, 0, 0, 0, 0, 0, 0, 0, 0, 0, 0, 0, 0], ending = EOF\<rparr>\<rparr>
        (newTransport flagDefaults)) = 1"
  by (simp add: handleConnection_def handlePacket_def ReadFull_def ReadAll_def
        deferred_close_def Let_def Log_def debugLog_def newTransport_def flagDefaults_def
        packet_def stream_def md5_Size_def md5_Sum_empty)

text \<open>
  Claim C8 says that a connection dispatched as a packet, or with an unknown first byte, is
  closed by the dispatcher. The call that would do it is commented out: after a well-formed
  packet (delivered) and after the unknown type byte \<^verbatim>\<open>07\<close> (counted), the connection
  is in neither case among the closed ones.
\<close>

theorem handled_connections_stay_open:
  "packetCh (handleConnection 7
        \<lparr>RemoteAddr = ''10.0.0.9:51000'',
         AcceptStream = Inr \<lparr>pending = [0x02, 0x00] @ md5_Sum [], ending = EOF\<rparr>\<rparr>
        (newTransport flagDefaults)) = [\<lparr>Buf = [], From = [], Timestamp = 7\<rparr>]
   \<and> closedConns (handleConnection 7
        \<lparr>RemoteAddr = ''10.0.0.9:51000'',
         AcceptStream = Inr \<lparr>pending = [0x02, 0x00] @ md5_Sum [], ending = EOF\<rparr>\<rparr>
        (newTransport flagDefaults)) = []
   \<and> unknownConnections (handleConnection 7
        \<lparr>RemoteAddr = ''10.0.0.9:51000'',
         AcceptStream = Inr \<lparr>pending = [0x07], ending = EOF\<rparr>\<rparr>
        (newTransport flagDefaults)) = 1
   \<and> closedConns (handleConnection 7
        \<lparr>RemoteAddr = ''10.0.0.9:51000'',
         AcceptStream = Inr \<lparr>pending = [0x07], ending = EOF\<rparr>\<rparr>
        (newTransport flagDefaults)) = []"
  by (simp add: handleConnection_def handlePacket_def ReadFull_def ReadAll_def
        deferred_close_def Let_def Log_def debugLog_def newTransport_def flagDefaults_def
        packet_def stream_def md5_Size_def md5_Sum_empty)


section \<open>Outbound packets and streams\<close>

text \<open>The third vector of the test suite of RFC 1321: the digest of \<^verbatim>\<open>abc\<close>.\<close>

lemma md5_Sum_abc:
  "md5_Sum [0x61, 0x62, 0x63] =
     [0x90, 0x01, 0x50, 0x98, 0x3c, 0xd2, 0x4f, 0xb0, 0xd6, 0x96, 0x3f, 0x7d, 0x28, 0xe1, 0x7f, 0x72]"
  by code_simp

text \<open>What \<open>writeTo\<close> leaves of the transport: one more network call, at most one more
  debug line, and no counter touched.\<close>

lemma writeTo_netCalls:
  "netCalls (snd (snd (writeTo pr b addr t))) =
     netCalls t @ [tls_DialWithDialer (PacketDialTimeout (cfg t)) ''udp'' addr]"
  by (simp add: writeTo_def getConnection_def failed_def Let_def Log_fields
        case_prod_beta split: option.split)

lemma writeTo_sentPacketsErrors:
  "sentPacketsErrors (snd (snd (writeTo pr b addr t))) = sentPacketsErrors t"
  by (simp add: writeTo_def getConnection_def failed_def Let_def Log_fields
        case_prod_beta split: option.split)

lemma writeTo_sentPackets:
  "sentPackets (snd (snd (writeTo pr b addr t))) = sentPackets t"
  "sentPacketsBytes (snd (snd (writeTo pr b addr t))) = sentPacketsBytes t"
  by (simp_all add: writeTo_def getConnection_def failed_def Let_def Log_fields
        case_prod_beta split: option.split)

text \<open>The error of \<open>writeTo\<close> does not depend on the counters of sent packets.\<close>

lemma writeTo_error_sent_counters:
  "fst (writeTo pr b addr (t\<lparr>sentPackets := x, sentPacketsBytes := y\<rparr>)) =
   fst (writeTo pr b addr t)"
  by (simp add: writeTo_def getConnection_def failed_def getAdvertisedAddr_def Let_def
        debugLog_def case_prod_beta split: option.split)

lemma writeTo_dial_failed:
  "Dial_err pr = Some e \<Longrightarrow> fst (writeTo pr b addr t) = Some (DialFailed e)"
  by (simp add: writeTo_def getConnection_def)

lemma DialTimeout_netCalls:
  "netCalls (snd (DialTimeout pr addr timeout t)) =
     netCalls t @ [tls_DialWithDialer timeout ''udp'' addr]"
  by (simp add: DialTimeout_def getConnection_def case_prod_beta split: option.split)

lemma unat_addrLen: "n \<le> 255 \<Longrightarrow> unat (of_nat n :: byte) = n"
  by (simp add: unat_of_nat)

text \<open>On a channel that opens, takes the deadline and takes every write in full, the
  bytes written are the frame.\<close>

lemma writeTo_written:
  assumes "length (advertiseAddr t) \<le> 255"
      and "Dial_err pr = None" and "SetDeadline_err pr = None"
      and "\<forall>k buf. Write_res pr k buf = (length buf, None)"
  shows "\<exists>c. fst (snd (writeTo pr p addr t)) = Some c
           \<and> written c = [packet, of_nat (length (advertiseAddr t))] @ advertiseAddr t @ p @ md5_Sum p"
  using assms
  by (simp add: writeTo_def getConnection_def failed_def getAdvertisedAddr_def Let_def
        Write_def SetDeadline_def Close_def case_prod_beta split: option.split)

text \<open>The dispatcher on a stream that carries such a frame and then ends.\<close>

lemma handleConnection_frame:
  assumes "AcceptStream conn = Inr str"
      and "pending str = [packet, of_nat (length a)] @ a @ p @ md5_Sum p" and "ending str = EOF"
      and "length a \<le> 255"
  shows "packetCh (handleConnection now conn t2) =
           packetCh t2 @ [\<lparr>Buf = p, From = a, Timestamp = now\<rparr>]
       \<and> receivedPacketsErrors (handleConnection now conn t2) = receivedPacketsErrors t2"
proof -
  from assms(2) have pend: "pending str = packet # (of_nat (length a) # a @ p @ md5_Sum p)" by simp
  have rest: "pending (str\<lparr>pending := of_nat (length a) # a @ p @ md5_Sum p\<rparr>)
                = of_nat (length a) # a @ p @ md5_Sum p"
    and fin: "ending (str\<lparr>pending := of_nat (length a) # a @ p @ md5_Sum p\<rparr>) = EOF"
    using assms(3) by simp_all
  have len: "length a = unat (of_nat (length a) :: byte)"
    using assms(4) by (simp add: unat_addrLen)
  show ?thesis
    unfolding handleConnection_packet [OF assms(1) pend]
      handlePacket_frame [OF rest fin len length_md5_Sum]
    by (simp add: Let_def Log_fields logger_Log debugLog_def)
qed


text \<open>
  Claim C3. Take any payload \<open>p\<close> and a cached advertised address of at most 255 bytes, and a
  channel that opens, takes the deadline and takes every write in full. Then \<open>writeTo\<close>
  writes exactly the type byte \<^verbatim>\<open>0x02\<close>, one byte with the length of the address, the
  address, the payload and the MD5 digest of the payload; and the dispatcher of any
  receiver, given a stream with these bytes, delivers one packet with \<open>Buf = p\<close> and
  \<open>From\<close> the address, and counts no receive error: the digest check passes.
\<close>

theorem packet_frame_roundtrip:
  assumes "length (advertiseAddr t) \<le> 255"
      and "Dial_err pr = None" and "SetDeadline_err pr = None"
      and "\<forall>k buf. Write_res pr k buf = (length buf, None)"
  shows "\<exists>c. fst (snd (writeTo pr p addr t)) = Some c
           \<and> written c =
               [0x02, of_nat (length (advertiseAddr t))] @ advertiseAddr t @ p @ md5_Sum p
           \<and> (\<forall>conn now t2.
                 AcceptStream conn = Inr \<lparr>pending = written c, ending = EOF\<rparr> \<longrightarrow>
                   packetCh (handleConnection now conn t2) =
                     packetCh t2 @ [\<lparr>Buf = p, From = advertiseAddr t, Timestamp = now\<rparr>]
                 \<and> receivedPacketsErrors (handleConnection now conn t2) =
                     receivedPacketsErrors t2)"
proof -
  from writeTo_written [OF assms, of p addr] obtain c where
    c: "fst (snd (writeTo pr p addr t)) = Some c"
    and w: "written c =
              [packet, of_nat (length (advertiseAddr t))] @ advertiseAddr t @ p @ md5_Sum p"
    by blast
  have "packetCh (handleConnection now conn t2) =
          packetCh t2 @ [\<lparr>Buf = p, From = advertiseAddr t, Timestamp = now\<rparr>]
        \<and> receivedPacketsErrors (handleConnection now conn t2) = receivedPacketsErrors t2"
    if "AcceptStream conn = Inr \<lparr>pending = written c, ending = EOF\<rparr>" for conn now t2
    using handleConnection_frame [OF that _ _ assms(1), of p now t2] w by simp
  with c w show ?thesis by (simp add: packet_def)
qed

text \<open>An instance: the payload \<^verbatim>\<open>abc\<close> sent from \<^verbatim>\<open>10.0.0.1:7946\<close>.\<close>

theorem packet_frame_roundtrip_witness:
  "length (advertiseAddr ((newTransport flagDefaults)
      \<lparr>advertiseAddr := [0x31, 0x30, 0x2e, 0x30, 0x2e, 0x30, 0x2e, 0x31, 0x3a, 0x37, 0x39, 0x34, 0x36]\<rparr>))
     \<le> 255
   \<and> (\<exists>c. fst (snd (writeTo
          \<lparr>Dial_err = None, SetDeadline_err = None, Write_res = (\<lambda>k buf. (length buf, None)),
           Close_err = None, Now_deadline = 100, Now_return = 200\<rparr>
          [0x61, 0x62, 0x63] ''10.0.0.2:7946''
          ((newTransport flagDefaults)
             \<lparr>advertiseAddr := [0x31, 0x30, 0x2e, 0x30, 0x2e, 0x30, 0x2e, 0x31, 0x3a, 0x37, 0x39, 0x34, 0x36]\<rparr>)))
        = Some c
      \<and> written c =
          [0x02, 0x0d, 0x31, 0x30, 0x2e, 0x30, 0x2e, 0x30, 0x2e, 0x31, 0x3a, 0x37, 0x39, 0x34, 0x36,
           0x61, 0x62, 0x63,
           0x90, 0x01, 0x50, 0x98, 0x3c, 0xd2, 0x4f, 0xb0, 0xd6, 0x96, 0x3f, 0x7d, 0x28, 0xe1, 0x7f, 0x72]
      \<and> packetCh (handleConnection 300
            \<lparr>RemoteAddr = ''10.0.0.1:40404'',
             AcceptStream = Inr \<lparr>pending = written c, ending = EOF\<rparr>\<rparr>
            (newTransport flagDefaults))
          = [\<lparr>Buf = [0x61, 0x62, 0x63],
              From = [0x31, 0x30, 0x2e, 0x30, 0x2e, 0x30, 0x2e, 0x31, 0x3a, 0x37, 0x39, 0x34, 0x36],
              Timestamp = 300\<rparr>]
      \<and> receivedPacketsErrors (handleConnection 300
            \<lparr>RemoteAddr = ''10.0.0.1:40404'',
             AcceptStream = Inr \<lparr>pending = written c, ending = EOF\<rparr>\<rparr>
            (newTransport flagDefaults)) = 0)"
proof -
  let ?a = "[0x31, 0x30, 0x2e, 0x30, 0x2e, 0x30, 0x2e, 0x31, 0x3a, 0x37, 0x39, 0x34, 0x36] :: byte list"
  let ?t = "(newTransport flagDefaults)\<lparr>advertiseAddr := ?a\<rparr>"
  let ?pr = "\<lparr>Dial_err = None, SetDeadline_err = None, Write_res = (\<lambda>k buf. (length buf, None)),
           Close_err = None, Now_deadline = 100, Now_return = 200\<rparr>"
  have len: "length (advertiseAddr ?t) \<le> 255" by simp
  from packet_frame_roundtrip [of ?t ?pr "[0x61, 0x62, 0x63]" "''10.0.0.2:7946''", OF len]
  obtain c where c: "fst (snd (writeTo ?pr [0x61, 0x62, 0x63] ''10.0.0.2:7946'' ?t)) = Some c"
    and w: "written c = [0x02, of_nat (length (advertiseAddr ?t))] @ advertiseAddr ?t
              @ [0x61, 0x62, 0x63] @ md5_Sum [0x61, 0x62, 0x63]"
    and r: "\<forall>conn now t2.
              AcceptStream conn = Inr \<lparr>pending = written c, ending = EOF\<rparr> \<longrightarrow>
                packetCh (handleConnection now conn t2) =
                  packetCh t2 @ [\<lparr>Buf = [0x61, 0x62, 0x63], From = advertiseAddr ?t, Timestamp = now\<rparr>]
              \<and> receivedPacketsErrors (handleConnection now conn t2) = receivedPacketsErrors t2"
    by auto
  from r [rule_format, of "\<lparr>RemoteAddr = ''10.0.0.1:40404'',
             AcceptStream = Inr \<lparr>pending = written c, ending = EOF\<rparr>\<rparr>" 300 "newTransport flagDefaults"]
  have d: "packetCh (handleConnection 300
            \<lparr>RemoteAddr = ''10.0.0.1:40404'',
             AcceptStream = Inr \<lparr>pending = written c, ending = EOF\<rparr>\<rparr>
            (newTransport flagDefaults))
          = [\<lparr>Buf = [0x61, 0x62, 0x63], From = ?a, Timestamp = 300\<rparr>]
      \<and> receivedPacketsErrors (handleConnection 300
            \<lparr>RemoteAddr = ''10.0.0.1:40404'',
             AcceptStream = Inr \<lparr>pending = written c, ending = EOF\<rparr>\<rparr>
            (newTransport flagDefaults)) = 0"
    by (simp add: newTransport_def)
  from w have w': "written c =
          [0x02, 0x0d, 0x31, 0x30, 0x2e, 0x30, 0x2e, 0x30, 0x2e, 0x31, 0x3a, 0x37, 0x39, 0x34, 0x36,
           0x61, 0x62, 0x63,
           0x90, 0x01, 0x50, 0x98, 0x3c, 0xd2, 0x4f, 0xb0, 0xd6, 0x96, 0x3f, 0x7d, 0x28, 0xe1, 0x7f, 0x72]"
    by (simp add: md5_Sum_abc)
  show ?thesis
    using len c w' d by blast
qed

text \<open>
  Claim C4. For every payload and peer address, and whatever the network does, \<open>WriteTo\<close>
  returns the current time with a nil error. When the send underneath fails (\<open>writeTo\<close>
  returns an error), \<open>sentPacketsErrors\<close> grows by one and the error goes no further; when
  it succeeds the counter stays. The packet and byte counters grow in both cases.
\<close>

theorem WriteTo_swallows_send_errors:
  "fst (WriteTo pr b addr t) = (Now_return pr, None)
   \<and> sentPacketsErrors (snd (snd (WriteTo pr b addr t))) =
       sentPacketsErrors t + (if fst (writeTo pr b addr t) = None then 0 else 1)
   \<and> sentPackets (snd (snd (WriteTo pr b addr t))) = sentPackets t + 1
   \<and> sentPacketsBytes (snd (snd (WriteTo pr b addr t))) = sentPacketsBytes t + length b"
proof -
  let ?t2 = "t\<lparr>sentPackets := sentPackets t + 1, sentPacketsBytes := sentPacketsBytes t + length b\<rparr>"
  obtain err c t3 where w: "writeTo pr b addr ?t2 = (err, c, t3)"
    by (cases "writeTo pr b addr ?t2") auto
  have e: "fst (writeTo pr b addr t) = err"
    using writeTo_error_sent_counters
      [where pr = pr and b = b and addr = addr and t = t and x = "sentPackets t + 1"
         and y = "sentPacketsBytes t + length b"] w
    by simp
  have s: "sentPacketsErrors t3 = sentPacketsErrors t"
    and p: "sentPackets t3 = sentPackets t + 1"
    and y: "sentPacketsBytes t3 = sentPacketsBytes t + length b"
    using writeTo_sentPacketsErrors [of pr b addr ?t2] writeTo_sentPackets [of pr b addr ?t2] w
    by simp_all
  show ?thesis
    using w e s p y
    by (cases err) (simp_all add: WriteTo_def Let_def Log_fields)
qed

text \<open>An instance: the dial is refused.\<close>

theorem WriteTo_swallows_send_errors_witness:
  "fst (writeTo
          \<lparr>Dial_err = Some ''dial udp 10.0.0.2:7946: connect: connection refused'',
           SetDeadline_err = None, Write_res = (\<lambda>k buf. (length buf, None)),
           Close_err = None, Now_deadline = 100, Now_return = 200\<rparr>
          [0x61, 0x62, 0x63] ''10.0.0.2:7946'' (newTransport flagDefaults))
     = Some (DialFailed ''dial udp 10.0.0.2:7946: connect: connection refused'')
   \<and> fst (WriteTo
          \<lparr>Dial_err = Some ''dial udp 10.0.0.2:7946: connect: connection refused'',
           SetDeadline_err = None, Write_res = (\<lambda>k buf. (length buf, None)),
           Close_err = None, Now_deadline = 100, Now_return = 200\<rparr>
          [0x61, 0x62, 0x63] ''10.0.0.2:7946'' (newTransport flagDefaults))
     = (200, None)
   \<and> sentPacketsErrors (snd (snd (WriteTo
          \<lparr>Dial_err = Some ''dial udp 10.0.0.2:7946: connect: connection refused'',
           SetDeadline_err = None, Write_res = (\<lambda>k buf. (length buf, None)),
           Close_err = None, Now_deadline = 100, Now_return = 200\<rparr>
          [0x61, 0x62, 0x63] ''10.0.0.2:7946'' (newTransport flagDefaults)))) = 1"
proof -
  let ?pr = "\<lparr>Dial_err = Some ''dial udp 10.0.0.2:7946: connect: connection refused'',
           SetDeadline_err = None, Write_res = (\<lambda>k buf. (length buf, None)),
           Close_err = None, Now_deadline = 100, Now_return = 200\<rparr>"
  have f: "fst (writeTo ?pr [0x61, 0x62, 0x63] ''10.0.0.2:7946'' (newTransport flagDefaults))
            = Some (DialFailed ''dial udp 10.0.0.2:7946: connect: connection refused'')"
    by (simp add: writeTo_dial_failed)
  show ?thesis
    using f WriteTo_swallows_send_errors
      [of ?pr "[0x61, 0x62, 0x63]" "''10.0.0.2:7946''" "newTransport flagDefaults"]
    by (simp add: newTransport_def)
qed

text \<open>
  Claim C5 says that \<open>writeTo\<close> fails with \<^verbatim>\<open>local address too long\<close> exactly when the
  cached advertised address is longer than 255 bytes. The length is tested only after the
  channel has been opened: with an address of 256 bytes and a dial that is refused,
  \<open>writeTo\<close> returns the error of the dial.
\<close>

theorem long_address_but_dial_error:
  "255 < length (getAdvertisedAddr
      ((newTransport flagDefaults)\<lparr>advertiseAddr := replicate 256 0x61\<rparr>))
   \<and> fst (writeTo
          \<lparr>Dial_err = Some ''dial udp 10.0.0.2:7946: connect: connection refused'',
           SetDeadline_err = None, Write_res = (\<lambda>k buf. (length buf, None)),
           Close_err = None, Now_deadline = 100, Now_return = 200\<rparr>
          [0x61, 0x62, 0x63] ''10.0.0.2:7946''
          ((newTransport flagDefaults)\<lparr>advertiseAddr := replicate 256 0x61\<rparr>))
       = Some (DialFailed ''dial udp 10.0.0.2:7946: connect: connection refused'')
   \<and> fst (writeTo
          \<lparr>Dial_err = Some ''dial udp 10.0.0.2:7946: connect: connection refused'',
           SetDeadline_err = None, Write_res = (\<lambda>k buf. (length buf, None)),
           Close_err = None, Now_deadline = 100, Now_return = 200\<rparr>
          [0x61, 0x62, 0x63] ''10.0.0.2:7946''
          ((newTransport flagDefaults)\<lparr>advertiseAddr := replicate 256 0x61\<rparr>))
       \<noteq> Some LocalAddressTooLong"
  by (simp add: writeTo_dial_failed getAdvertisedAddr_def)

text \<open>Once the dial has succeeded, the length of the address decides.\<close>

lemma writeTo_too_long_iff:
  "Dial_err pr = None \<Longrightarrow>
   (fst (writeTo pr b addr t) = Some LocalAddressTooLong) = (255 < length (getAdvertisedAddr t))"
  by (simp add: writeTo_def getConnection_def failed_def getAdvertisedAddr_def Let_def
        case_prod_beta split: option.split)

lemma writeTo_header:
  assumes "Dial_err pr = None" and "length (getAdvertisedAddr t) \<le> 255"
      and "0 < PacketWriteTimeout (cfg t) \<longrightarrow> SetDeadline_err pr = None"
      and "fst (Write_res pr 0 ([packet, of_nat (length (getAdvertisedAddr t))] @ getAdvertisedAddr t))
             = Suc (Suc (length (getAdvertisedAddr t)))"
  shows "\<exists>c. fst (snd (writeTo pr b addr t)) = Some c
           \<and> take (Suc (Suc (length (getAdvertisedAddr t)))) (written c) =
               [packet, of_nat (length (getAdvertisedAddr t))] @ getAdvertisedAddr t"
  using assms
  by (simp add: writeTo_def getConnection_def failed_def getAdvertisedAddr_def Let_def
        Write_def SetDeadline_def Close_def case_prod_beta split: option.split)

text \<open>
  Claim C5, amended. When the channel has been opened, \<open>writeTo\<close> fails with
  \<^verbatim>\<open>local address too long\<close> exactly when the cached advertised address is longer than
  255 bytes. An address of at most 255 bytes is accepted: if the deadline is taken and the
  first write takes its whole buffer, the bytes on the channel start with the packet byte,
  one byte whose value is the length of the address, and the address.
\<close>

theorem local_address_too_long_once_dialed:
  assumes "Dial_err pr = None"
  shows "(fst (writeTo pr b addr t) = Some LocalAddressTooLong) =
           (255 < length (getAdvertisedAddr t))
       \<and> (length (getAdvertisedAddr t) \<le> 255
            \<and> (0 < PacketWriteTimeout (cfg t) \<longrightarrow> SetDeadline_err pr = None)
            \<and> fst (Write_res pr 0
                  ([packet, of_nat (length (getAdvertisedAddr t))] @ getAdvertisedAddr t))
                = Suc (Suc (length (getAdvertisedAddr t)))
          \<longrightarrow> (\<exists>c. fst (snd (writeTo pr b addr t)) = Some c
                 \<and> take (Suc (Suc (length (getAdvertisedAddr t)))) (written c) =
                     [packet, of_nat (length (getAdvertisedAddr t))] @ getAdvertisedAddr t
                 \<and> unat (of_nat (length (getAdvertisedAddr t)) :: byte) =
                     length (getAdvertisedAddr t)))"
  using writeTo_too_long_iff [OF assms, of b addr t] writeTo_header [OF assms, of t b addr]
    unat_addrLen [of "length (getAdvertisedAddr t)"]
  by blast

text \<open>An instance: the 13 bytes of \<^verbatim>\<open>10.0.0.1:7946\<close>.\<close>

theorem local_address_too_long_once_dialed_witness:
  "fst (writeTo
          \<lparr>Dial_err = None, SetDeadline_err = None, Write_res = (\<lambda>k buf. (length buf, None)),
           Close_err = None, Now_deadline = 100, Now_return = 200\<rparr>
          [0x61, 0x62, 0x63] ''10.0.0.2:7946''
          ((newTransport flagDefaults)
             \<lparr>advertiseAddr := [0x31, 0x30, 0x2e, 0x30, 0x2e, 0x30, 0x2e, 0x31, 0x3a, 0x37, 0x39, 0x34, 0x36]\<rparr>))
     \<noteq> Some LocalAddressTooLong
   \<and> (\<exists>c. fst (snd (writeTo
          \<lparr>Dial_err = None, SetDeadline_err = None, Write_res = (\<lambda>k buf. (length buf, None)),
           Close_err = None, Now_deadline = 100, Now_return = 200\<rparr>
          [0x61, 0x62, 0x63] ''10.0.0.2:7946''
          ((newTransport flagDefaults)
             \<lparr>advertiseAddr := [0x31, 0x30, 0x2e, 0x30, 0x2e, 0x30, 0x2e, 0x31, 0x3a, 0x37, 0x39, 0x34, 0x36]\<rparr>)))
         = Some c
        \<and> take 15 (written c) =
            [0x02, 0x0d, 0x31, 0x30, 0x2e, 0x30, 0x2e, 0x30, 0x2e, 0x31, 0x3a, 0x37, 0x39, 0x34, 0x36])"
proof -
  let ?a = "[0x31, 0x30, 0x2e, 0x30, 0x2e, 0x30, 0x2e, 0x31, 0x3a, 0x37, 0x39, 0x34, 0x36] :: byte list"
  let ?t = "(newTransport flagDefaults)\<lparr>advertiseAddr := ?a\<rparr>"
  let ?pr = "\<lparr>Dial_err = None, SetDeadline_err = None, Write_res = (\<lambda>k buf. (length buf, None)),
           Close_err = None, Now_deadline = 100, Now_return = 200\<rparr>"
  have d: "Dial_err ?pr = None" by simp
  have h: "length (getAdvertisedAddr ?t) \<le> 255
           \<and> (0 < PacketWriteTimeout (cfg ?t) \<longrightarrow> SetDeadline_err ?pr = None)
           \<and> fst (Write_res ?pr 0
                 ([packet, of_nat (length (getAdvertisedAddr ?t))] @ getAdvertisedAddr ?t))
               = Suc (Suc (length (getAdvertisedAddr ?t)))"
    by (simp add: getAdvertisedAddr_def)
  note th = local_address_too_long_once_dialed
    [OF d, of "[0x61, 0x62, 0x63]" "''10.0.0.2:7946''" ?t]
  from th have e: "fst (writeTo ?pr [0x61, 0x62, 0x63] ''10.0.0.2:7946'' ?t)
                     \<noteq> Some LocalAddressTooLong"
    by (simp add: getAdvertisedAddr_def)
  from th h obtain c where
    c: "fst (snd (writeTo ?pr [0x61, 0x62, 0x63] ''10.0.0.2:7946'' ?t)) = Some c"
    and tk: "take (Suc (Suc (length (getAdvertisedAddr ?t)))) (written c) =
               [packet, of_nat (length (getAdvertisedAddr ?t))] @ getAdvertisedAddr ?t"
    by blast
  have n: "Suc (Suc (length (getAdvertisedAddr ?t))) = 15"
    by (simp add: getAdvertisedAddr_def)
  from tk have "take 15 (written c) =
      [0x02, 0x0d, 0x31, 0x30, 0x2e, 0x30, 0x2e, 0x30, 0x2e, 0x31, 0x3a, 0x37, 0x39, 0x34, 0x36]"
    unfolding n by (simp add: getAdvertisedAddr_def packet_def)
  with e c show ?thesis by blast
qed

section \<open>The accept loop\<close>

text \<open>The two constants in nanoseconds.\<close>

lemma delay_constants: "baseDelay = 5000000" "maxDelay = 1000000000"
  by (simp_all add: baseDelay_def maxDelay_def Second_def Millisecond_def)

text \<open>From 0 or from any value the loop can hold, one more error gives a delay between
  the two constants.\<close>

lemma nextDelay_bounds:
  "d = 0 \<or> baseDelay \<le> d \<Longrightarrow> baseDelay \<le> nextDelay d \<and> nextDelay d \<le> maxDelay"
  by (auto simp add: nextDelay_def Let_def delay_constants)

text \<open>A delay never exceeds \<open>maxDelay\<close>, so doubling it stays far below the largest
  64-bit duration, and the unbounded integers of the model agree with the machine's.\<close>

lemma nextDelay_no_overflow:
  "0 \<le> d \<Longrightarrow> d \<le> maxDelay \<Longrightarrow> d * 2 < 2 ^ 63"
  by (simp add: delay_constants)

text \<open>After \<open>k\<close> errors in a row the delay is 5 ms doubled \<open>k - 1\<close> times, at most 1 s.\<close>

lemma nextDelay_backoff:
  "nextDelay (if k = 0 then 0 else min (baseDelay * 2 ^ (k - 1)) maxDelay) =
     min (baseDelay * 2 ^ k) maxDelay"
proof (cases k)
  case 0
  then show ?thesis by (simp add: nextDelay_def Let_def delay_constants)
next
  case (Suc j)
  have pos: "(0::int) < 2 ^ j" by simp
  show ?thesis
    using pos unfolding Suc
    by (simp add: nextDelay_def Let_def delay_constants min_def)
qed

text \<open>The loop on a sequence of returns in two parts.\<close>

lemma quicListen_append:
  "quicListen (xs @ ys) d t =
     (case quicListen xs d t of
        (None, t') \<Rightarrow> (None, t')
      | (Some d', t') \<Rightarrow> quicListen ys d' t')"
  by (induction xs d t rule: quicListen.induct) (simp_all add: Let_def)

text \<open>Every pause of every run lies between the two constants.\<close>

lemma quicListen_slept_bounds:
  "d = 0 \<or> baseDelay \<le> d \<Longrightarrow>
   \<exists>new. slept (snd (quicListen evs d t)) = slept t @ new
        \<and> (\<forall>x\<in>set new. baseDelay \<le> x \<and> x \<le> maxDelay)"
proof (induction evs d t rule: quicListen.induct)
  case (1 loopDelay t)
  show ?case by simp
next
  case (2 err s rest loopDelay t)
  show ?case
  proof (cases "s = 1")
    case True
    then show ?thesis by simp
  next
    case False
    let ?t1 = "(Log (Some Error) ''Error accepting Quic connection'' t)
                 \<lparr>slept := slept (Log (Some Error) ''Error accepting Quic connection'' t)
                             @ [nextDelay loopDelay]\<rparr>"
    from nextDelay_bounds [OF "2.prems"] have b: "baseDelay \<le> nextDelay loopDelay"
      "nextDelay loopDelay \<le> maxDelay" by simp_all
    then have "nextDelay loopDelay = 0 \<or> baseDelay \<le> nextDelay loopDelay" by simp
    from "2.IH" [OF False refl refl this]
    obtain new where n: "slept (snd (quicListen rest (nextDelay loopDelay) ?t1)) = slept ?t1 @ new"
      and bn: "\<forall>x\<in>set new. baseDelay \<le> x \<and> x \<le> maxDelay"
      by blast
    have "slept (snd (quicListen ((AcceptError err, s) # rest) loopDelay t))
            = slept t @ (nextDelay loopDelay # new)"
      using False n by (simp add: Let_def Log_fields)
    moreover have "\<forall>x\<in>set (nextDelay loopDelay # new). baseDelay \<le> x \<and> x \<le> maxDelay"
      using b bn by simp
    ultimately show ?thesis by blast
  qed
next
  case (3 conn s rest loopDelay t)
  from "3.IH" [OF refl] show ?case by (simp add: Let_def)
qed

text \<open>The loop keeps the schedule of the specification, from any number of errors in a
  row.\<close>

lemma quicListen_backoffSchedule:
  "slept (snd (quicListen evs (if n = 0 then 0 else min (baseDelay * 2 ^ (n - 1)) maxDelay) t))
     = slept t @ backoffSchedule n evs"
proof (induction n evs arbitrary: t rule: backoffSchedule.induct)
  case (1 n)
  show ?case by simp
next
  case (2 n err s rest)
  show ?case
  proof (cases "s = 1")
    case True
    then show ?thesis by simp
  next
    case False
    let ?t1 = "(Log (Some Error) ''Error accepting Quic connection'' t)
                 \<lparr>slept := slept t @ [min (baseDelay * 2 ^ n) maxDelay]\<rparr>"
    have step: "quicListen ((AcceptError err, s) # rest)
                  (if n = 0 then 0 else min (baseDelay * 2 ^ (n - 1)) maxDelay) t
                = quicListen rest
                    (if Suc n = 0 then 0 else min (baseDelay * 2 ^ (Suc n - 1)) maxDelay) ?t1"
      using False nextDelay_backoff [of n] by (simp add: Let_def Log_fields)
    show ?thesis
      unfolding step using False "2.IH" [OF False, of ?t1]
      by (simp add: Log_fields baseDelay_def maxDelay_def)
  qed
next
  case (3 n conn s rest)
  from "3.IH" [of "t\<lparr>handlers := handlers t @ [conn]\<rparr>"] show ?case
    by (simp add: Let_def)
qed

text \<open>The loop leaves exactly when an error comes with the shutdown flag at 1.\<close>

lemma quicListen_exits_iff:
  "(fst (quicListen evs d t) = None) = (\<exists>e. (AcceptError e, 1) \<in> set evs)"
  by (induction evs d t rule: quicListen.induct) (auto simp: Let_def)

text \<open>The schedule on errors in a row, whatever their texts.\<close>

lemma backoffSchedule_errors:
  "\<forall>x\<in>set es. snd x \<noteq> 1 \<Longrightarrow>
   backoffSchedule n (map (\<lambda>x. (AcceptError (fst x), snd x)) es) =
     map (\<lambda>i. min (5 * Millisecond * 2 ^ (n + i)) (1 * Second)) [0..<length es]"
proof (induction es arbitrary: n)
  case Nil
  show ?case by simp
next
  case (Cons x es)
  have m: "map (\<lambda>i. min (5 * Millisecond * 2 ^ (n + i)) (1 * Second)) [0..<Suc (length es)]
            = min (5 * Millisecond * 2 ^ n) (1 * Second)
                # map (\<lambda>i. min (5 * Millisecond * 2 ^ (Suc n + i)) (1 * Second)) [0..<length es]"
    by (simp only: map_upt_Suc) simp
  from Cons.prems have "snd x \<noteq> 1" "\<forall>x\<in>set es. snd x \<noteq> 1" by simp_all
  with Cons.IH [of "Suc n"] m show ?case by simp
qed

text \<open>
  Claim C6. For every sequence of returns of \<^verbatim>\<open>Accept\<close>, the pauses of the accept loop
  are those of the backoff the specification describes: after each error that does not
  come under shutdown the loop pauses 5 ms if the return before was not an error, and
  otherwise the double of the pause before, but at most 1 s; and the loop leaves exactly
  when an error comes while the shutdown flag is 1. In particular every pause is between
  5 ms and 1 s; errors in a row from the start, whatever their texts, are paused 5 ms,
  10 ms, 20 ms and so on up to 1 s; after any returns that leave the loop running, a
  successful accept brings the delay back to zero, so that the errors after it are paused
  from 5 ms again; and an error under shutdown ends the loop with no pause and no handler,
  and nothing that \<^verbatim>\<open>Accept\<close> might return later is looked at.
\<close>

theorem accept_loop_backoff:
  "slept (snd (quicListen evs 0 t)) = slept t @ backoffSchedule 0 evs
   \<and> (fst (quicListen evs 0 t) = None) = (\<exists>e. (AcceptError e, 1) \<in> set evs)
   \<and> (\<exists>new. slept (snd (quicListen evs 0 t)) = slept t @ new
            \<and> (\<forall>x\<in>set new. 5 * Millisecond \<le> x \<and> x \<le> 1 * Second))
   \<and> ((\<forall>x\<in>set es. snd x \<noteq> 1) \<longrightarrow>
         slept (snd (quicListen (map (\<lambda>x. (AcceptError (fst x), snd x)) es) 0 t)) =
           slept t @ map (\<lambda>i. min (5 * Millisecond * 2 ^ i) (1 * Second)) [0..<length es])
   \<and> (fst (quicListen pre 0 t) \<noteq> None \<and> (\<forall>x\<in>set es. snd x \<noteq> 1) \<longrightarrow>
         fst (quicListen (pre @ [(Accepted conn, s)]) 0 t) = Some 0
       \<and> slept (snd (quicListen
             (pre @ (Accepted conn, s) # map (\<lambda>x. (AcceptError (fst x), snd x)) es) 0 t)) =
           slept (snd (quicListen pre 0 t))
             @ map (\<lambda>i. min (5 * Millisecond * 2 ^ i) (1 * Second)) [0..<length es]
       \<and> fst (quicListen (pre @ (AcceptError e, 1) # rest) 0 t) = None
       \<and> slept (snd (quicListen (pre @ (AcceptError e, 1) # rest) 0 t)) =
           slept (snd (quicListen pre 0 t))
       \<and> handlers (snd (quicListen (pre @ (AcceptError e, 1) # rest) 0 t)) =
           handlers (snd (quicListen pre 0 t)))"
proof -
  have c: "5 * Millisecond = baseDelay" "1 * Second = maxDelay"
    by (simp_all add: baseDelay_def maxDelay_def)
  have sched: "slept (snd (quicListen evs' 0 t')) = slept t' @ backoffSchedule 0 evs'" for evs' t'
    using quicListen_backoffSchedule [of evs' 0 t'] by simp
  have run: "slept (snd (quicListen (map (\<lambda>x. (AcceptError (fst x), snd x)) es) 0 t')) =
               slept t' @ map (\<lambda>i. min (5 * Millisecond * 2 ^ i) (1 * Second)) [0..<length es]"
    if "\<forall>x\<in>set es. snd x \<noteq> 1" for t'
    using sched [of "map (\<lambda>x. (AcceptError (fst x), snd x)) es" t']
      backoffSchedule_errors [OF that, of 0] by simp
  have bnd: "\<exists>new. slept (snd (quicListen evs 0 t)) = slept t @ new
              \<and> (\<forall>x\<in>set new. 5 * Millisecond \<le> x \<and> x \<le> 1 * Second)"
    unfolding c by (rule quicListen_slept_bounds) simp
  have after: "fst (quicListen (pre @ [(Accepted conn, s)]) 0 t) = Some 0
       \<and> slept (snd (quicListen
             (pre @ (Accepted conn, s) # map (\<lambda>x. (AcceptError (fst x), snd x)) es) 0 t)) =
           slept (snd (quicListen pre 0 t))
             @ map (\<lambda>i. min (5 * Millisecond * 2 ^ i) (1 * Second)) [0..<length es]
       \<and> fst (quicListen (pre @ (AcceptError e, 1) # rest) 0 t) = None
       \<and> slept (snd (quicListen (pre @ (AcceptError e, 1) # rest) 0 t)) =
           slept (snd (quicListen pre 0 t))
       \<and> handlers (snd (quicListen (pre @ (AcceptError e, 1) # rest) 0 t)) =
           handlers (snd (quicListen pre 0 t))"
    if "fst (quicListen pre 0 t) \<noteq> None" and f: "\<forall>x\<in>set es. snd x \<noteq> 1"
  proof -
    from that(1) obtain d t' where p: "quicListen pre 0 t = (Some d, t')"
      by (cases "quicListen pre 0 t") auto
    show ?thesis
      using run [OF f, of "t'\<lparr>handlers := handlers t' @ [conn]\<rparr>"]
      by (simp add: quicListen_append p Let_def)
  qed
  show ?thesis
    using sched [of evs t] quicListen_exits_iff [of evs 0 t] bnd run [of t] after by blast
qed

text \<open>The first nine pauses.\<close>

lemma backoff_nine:
  "map (\<lambda>i. min (5 * Millisecond * 2 ^ i) (1 * Second)) [0..<9] =
     [5000000, 10000000, 20000000, 40000000, 80000000, 160000000, 320000000, 640000000,
      1000000000]"
  by code_simp

text \<open>An instance: two errors, an accepted connection, nine errors with nine texts; and
  two errors, then an error under shutdown.\<close>

theorem accept_loop_backoff_witness:
  "fst (quicListen [(AcceptError ''accept failed'', 0), (AcceptError ''timeout'', 0)] 0
          (newTransport flagDefaults)) \<noteq> None
   \<and> slept (snd (quicListen
        ([(AcceptError ''accept failed'', 0), (AcceptError ''timeout'', 0)]
           @ (Accepted \<lparr>RemoteAddr = ''10.0.0.9:51000'', AcceptStream = Inl ''timeout''\<rparr>, 0)
             # [(AcceptError ''e1'', 0), (AcceptError ''e2'', 0), (AcceptError ''e3'', 0),
                (AcceptError ''e4'', 0), (AcceptError ''e5'', 0), (AcceptError ''e6'', 0),
                (AcceptError ''e7'', 0), (AcceptError ''e8'', 0), (AcceptError ''e9'', 0)])
        0 (newTransport flagDefaults))) =
       [5000000, 10000000,
        5000000, 10000000, 20000000, 40000000, 80000000, 160000000, 320000000, 640000000,
        1000000000]
   \<and> fst (quicListen
        ([(AcceptError ''accept failed'', 0), (AcceptError ''timeout'', 0)]
           @ (AcceptError ''use of closed network connection'', 1)
             # [(Accepted \<lparr>RemoteAddr = ''10.0.0.9:51000'', AcceptStream = Inl ''timeout''\<rparr>, 0)])
        0 (newTransport flagDefaults)) = None"
proof -
  let ?pre = "[(AcceptError ''accept failed'', 0), (AcceptError ''timeout'', 0)]"
  let ?es = "[(''e1'', 0), (''e2'', 0), (''e3'', 0), (''e4'', 0), (''e5'', 0), (''e6'', 0),
              (''e7'', 0), (''e8'', 0), (''e9'', 0)] :: (string \<times> int) list"
  let ?c = "\<lparr>RemoteAddr = ''10.0.0.9:51000'', AcceptStream = Inl ''timeout''\<rparr>"
  let ?t = "newTransport flagDefaults"
  have p: "fst (quicListen ?pre 0 ?t) \<noteq> None"
    by (simp add: Let_def)
  have f: "\<forall>x\<in>set ?es. snd x \<noteq> 1" by simp
  have s: "slept (snd (quicListen ?pre 0 ?t)) = [5000000, 10000000]"
    by (simp add: Let_def Log_fields nextDelay_def delay_constants newTransport_def)
  have n: "length ?es = 9" by simp
  note th = accept_loop_backoff
      [where evs = "[]" and t = ?t and es = ?es and pre = ?pre and conn = ?c and s = 0
         and e = "''use of closed network connection''" and rest = "[(Accepted ?c, 0)]"]
  note last = th [THEN conjunct2, THEN conjunct2, THEN conjunct2, THEN conjunct2, THEN mp,
                  OF conjI [OF p f]]
  note a = last [THEN conjunct2, THEN conjunct1]
  note x = last [THEN conjunct2, THEN conjunct2, THEN conjunct1]
  from a have "slept (snd (quicListen
             (?pre @ (Accepted ?c, 0) # map (\<lambda>x. (AcceptError (fst x), snd x)) ?es) 0 ?t)) =
       [5000000, 10000000,
        5000000, 10000000, 20000000, 40000000, 80000000, 160000000, 320000000, 640000000,
        1000000000]"
    unfolding s n backoff_nine by (simp only: append.simps)
  then have a': "slept (snd (quicListen
        (?pre @ (Accepted ?c, 0)
             # [(AcceptError ''e1'', 0), (AcceptError ''e2'', 0), (AcceptError ''e3'', 0),
                (AcceptError ''e4'', 0), (AcceptError ''e5'', 0), (AcceptError ''e6'', 0),
                (AcceptError ''e7'', 0), (AcceptError ''e8'', 0), (AcceptError ''e9'', 0)])
        0 ?t)) =
       [5000000, 10000000,
        5000000, 10000000, 20000000, 40000000, 80000000, 160000000, 320000000, 640000000,
        1000000000]"
    by (simp only: list.map fst_conv snd_conv)
  from p a' x show ?thesis by (intro conjI)
qed

section \<open>Construction\<close>

text \<open>The loop leaves the configuration alone.\<close>

lemma bindAll_cfg:
  "bindAll h addrs port t = Inr t' \<Longrightarrow> cfg t' = cfg t"
  by (induction addrs arbitrary: port t)
     (auto simp: Let_def split: option.splits sum.splits prod.splits)

lemma requestedPorts_append:
  "requestedPorts (xs @ ys) = requestedPorts xs @ requestedPorts ys"
  by (simp add: requestedPorts_def)

text \<open>One successful round of the loop over the bind addresses.\<close>

lemma bindAll_Cons_Inr:
  assumes "bindAll h (a # addrs) port t = Inr t'"
  shows "\<exists>ip lip lport.
           ParseIP h a = Some ip
         \<and> ListenUDP h ''udp4'' (quicListeners t) ip port = Inr (lip, lport)
         \<and> bindAll h addrs (if port = 0 then lport else port)
              (t\<lparr>netCalls := netCalls t @ [net_ListenUDP ''udp4'' ip port, quic_Transport_Listen lip lport],
                 quicListeners := quicListeners t
                   @ [\<lparr>Addr_IP = lip, Addr_Port = lport, listener_closed = False\<rparr>]\<rparr>) = Inr t'"
  using assms
  by (auto simp: Let_def split: option.splits sum.splits prod.splits if_splits)

text \<open>With a port other than 0, and sockets that get the port they are bound to, every
  listener of the loop has that port.\<close>

lemma bindAll_fixed_port:
  assumes "\<forall>bound ip p lip q.
             ListenUDP h ''udp4'' bound ip p = Inr (lip, q) \<longrightarrow> (if p = 0 then q \<noteq> 0 else q = p)"
      and "port \<noteq> 0" and "bindAll h addrs port t = Inr t'"
  shows "\<exists>ls. quicListeners t' = quicListeners t @ ls \<and> length ls = length addrs
             \<and> (\<forall>l\<in>set ls. Addr_Port l = port)
             \<and> requestedPorts (netCalls t') =
                 requestedPorts (netCalls t) @ replicate (length addrs) port"
  using assms(3)
proof (induction addrs arbitrary: t)
  case Nil
  then show ?case by simp
next
  case (Cons a addrs)
  let ?t3 = "\<lambda>ip lip lport.
        t\<lparr>netCalls := netCalls t @ [net_ListenUDP ''udp4'' ip port, quic_Transport_Listen lip lport],
          quicListeners := quicListeners t
            @ [\<lparr>Addr_IP = lip, Addr_Port = lport, listener_closed = False\<rparr>]\<rparr>"
  from bindAll_Cons_Inr [OF Cons.prems] assms(2) obtain ip lip lport where
    b: "ListenUDP h ''udp4'' (quicListeners t) ip port = Inr (lip, lport)"
    and r: "bindAll h addrs port (?t3 ip lip lport) = Inr t'"
    by auto
  from assms(1) b assms(2) have lp: "lport = port" by (metis (full_types))
  from Cons.IH [OF r] obtain ls where
    ls: "quicListeners t' = quicListeners (?t3 ip lip lport) @ ls" "length ls = length addrs"
      "\<forall>l\<in>set ls. Addr_Port l = port"
      "requestedPorts (netCalls t') =
         requestedPorts (netCalls (?t3 ip lip lport)) @ replicate (length addrs) port"
    by blast
  let ?ls = "\<lparr>Addr_IP = lip, Addr_Port = lport, listener_closed = False\<rparr> # ls"
  have "quicListeners t' = quicListeners t @ ?ls" using ls(1) by simp
  moreover have "length ?ls = length (a # addrs)" using ls(2) by simp
  moreover have "\<forall>l\<in>set ?ls. Addr_Port l = port" using ls(3) lp by simp
  moreover have "requestedPorts (netCalls t') =
      requestedPorts (netCalls t) @ replicate (length (a # addrs)) port"
    using ls(4) by (simp add: requestedPorts_append requestedPorts_def)
  ultimately show ?case by blast
qed

text \<open>With port 0 the first listener gets its port from the kernel, and the rest of the
  loop runs with it.\<close>

lemma bindAll_auto_port:
  assumes "\<forall>bound ip p lip q.
             ListenUDP h ''udp4'' bound ip p = Inr (lip, q) \<longrightarrow> (if p = 0 then q \<noteq> 0 else q = p)"
      and "bindAll h (a # addrs) 0 t = Inr t'"
  shows "\<exists>p ls. p \<noteq> 0
             \<and> quicListeners t' = quicListeners t @ ls \<and> length ls = Suc (length addrs)
             \<and> (\<forall>l\<in>set ls. Addr_Port l = p)
             \<and> requestedPorts (netCalls t') =
                 requestedPorts (netCalls t) @ 0 # replicate (length addrs) p"
proof -
  let ?t3 = "\<lambda>ip lip lport.
        t\<lparr>netCalls := netCalls t @ [net_ListenUDP ''udp4'' ip 0, quic_Transport_Listen lip lport],
          quicListeners := quicListeners t
            @ [\<lparr>Addr_IP = lip, Addr_Port = lport, listener_closed = False\<rparr>]\<rparr>"
  from bindAll_Cons_Inr [OF assms(2)] obtain ip lip lport where
    b: "ListenUDP h ''udp4'' (quicListeners t) ip 0 = Inr (lip, lport)"
    and r: "bindAll h addrs lport (?t3 ip lip lport) = Inr t'"
    by auto
  from assms(1) b have nz: "lport \<noteq> 0" by (metis (full_types))
  from bindAll_fixed_port [OF assms(1) nz r] obtain ls where
    ls: "quicListeners t' = quicListeners (?t3 ip lip lport) @ ls" "length ls = length addrs"
      "\<forall>l\<in>set ls. Addr_Port l = lport"
      "requestedPorts (netCalls t') =
         requestedPorts (netCalls (?t3 ip lip lport)) @ replicate (length addrs) lport"
    by blast
  let ?ls = "\<lparr>Addr_IP = lip, Addr_Port = lport, listener_closed = False\<rparr> # ls"
  have "quicListeners t' = quicListeners t @ ?ls" using ls(1) by simp
  moreover have "length ?ls = Suc (length addrs)" using ls(2) by simp
  moreover have "\<forall>l\<in>set ?ls. Addr_Port l = lport" using ls(3) by simp
  moreover have "requestedPorts (netCalls t') =
      requestedPorts (netCalls t) @ 0 # replicate (length addrs) lport"
    using ls(4) by (simp add: requestedPorts_append requestedPorts_def)
  ultimately show ?thesis using nz by blast
qed

text \<open>
  Claim C7. Let the configured bind port be 0, let a socket bound to port 0 get from the
  kernel some port other than 0 and a socket bound to another port that very port, and let
  \<open>NewQuicTransport\<close> succeed. Then there is one listener for each bind address, the
  first bind asks for port 0 and every later one for the port the first listener got, all
  listeners have that port, it is not 0, and \<open>GetAutoBindPort\<close> returns it.
\<close>

theorem auto_bind_port_is_shared:
  assumes "BindPort config = 0"
      and "\<forall>bound ip p lip q.
             ListenUDP h ''udp4'' bound ip p = Inr (lip, q) \<longrightarrow> (if p = 0 then q \<noteq> 0 else q = p)"
      and "NewQuicTransport h config = Inr t"
  shows "\<exists>p. p \<noteq> 0 \<and> GetAutoBindPort t = Some p
           \<and> (\<forall>l\<in>set (quicListeners t). Addr_Port l = p)
           \<and> length (quicListeners t) = length (BindAddrs (cfg t))
           \<and> requestedPorts (netCalls t) = 0 # replicate (length (quicListeners t) - 1) p"
proof -
  define config' where
    "config' = (if length (BindAddrs config) = 0
                then config\<lparr>BindAddrs := [zeroZeroZeroZero]\<rparr> else config)"
  have port: "BindPort config' = 0" using assms(1) by (simp add: config'_def)
  obtain a addrs where ne: "BindAddrs config' = a # addrs"
    by (cases "BindAddrs config'") (auto simp: config'_def split: if_splits)
  from assms(3) obtain t1 where
    b: "bindAll h (a # addrs) 0 (newTransport config') = Inr t1"
    and t: "t = t1\<lparr>wg := wg t1 + int (length (BindAddrs config'))\<rparr>"
    unfolding NewQuicTransport_def Let_def config'_def [symmetric] ne [symmetric] port [symmetric]
    by (auto simp: port ne split: option.splits sum.splits prod.splits)
  from bindAll_auto_port [OF assms(2) b] obtain p ls where
    p: "p \<noteq> 0" and q: "quicListeners t1 = ls" and n: "length ls = Suc (length addrs)"
    and a: "\<forall>l\<in>set ls. Addr_Port l = p"
    and r: "requestedPorts (netCalls t1) = 0 # replicate (length addrs) p"
    by (auto simp: newTransport_def requestedPorts_def)
  from n obtain l ls' where l: "ls = l # ls'" by (cases ls) auto
  have c: "cfg t1 = config'" using bindAll_cfg [OF b] by (simp add: newTransport_def)
  have "GetAutoBindPort t = Some p"
    using a by (simp add: GetAutoBindPort_def t q l)
  moreover have "\<forall>l\<in>set (quicListeners t). Addr_Port l = p"
    using a by (simp add: t q)
  moreover have "length (quicListeners t) = length (BindAddrs (cfg t))"
    using n by (simp add: t q c ne)
  moreover have "requestedPorts (netCalls t) = 0 # replicate (length (quicListeners t) - 1) p"
    using r n by (simp add: t q)
  ultimately show ?thesis using p by blast
qed

text \<open>An instance: two loopback addresses on a host that refuses on \<^verbatim>\<open>udp4\<close> an address
  without IPv4 form and whose kernel chooses port 40123.\<close>

theorem auto_bind_port_is_shared_witness:
  "BindPort (flagDefaults\<lparr>BindAddrs := [''127.0.0.1'', ''127.0.0.2''], BindPort := 0\<rparr>) = 0
   \<and> (\<exists>t. NewQuicTransport
          \<lparr>GetTLSConfig_err = None,
           ParseIP = (\<lambda>s. if s = ''127.0.0.1''
                           then Some [0, 0, 0, 0, 0, 0, 0, 0, 0, 0, 0xff, 0xff, 127, 0, 0, 1]
                         else if s = ''127.0.0.2''
                           then Some [0, 0, 0, 0, 0, 0, 0, 0, 0, 0, 0xff, 0xff, 127, 0, 0, 2]
                         else None),
           ListenUDP = (\<lambda>network bound ip p.
                          if network = ''udp4'' \<and> To4 ip = None then Inl ''non-IPv4 address''
                          else Inr (ip, if p = 0 then 40123 else p)),
           quic_Listen_err = (\<lambda>bound ip p. None),
           GetPrivateIP = Inr ''10.0.0.1'', GetFirstAddressOf = Inl ''no address found'',
           UDPAddr_String = (\<lambda>ip p. [])\<rparr>
          (flagDefaults\<lparr>BindAddrs := [''127.0.0.1'', ''127.0.0.2''], BindPort := 0\<rparr>) = Inr t
        \<and> GetAutoBindPort t = Some 40123
        \<and> map Addr_Port (quicListeners t) = [40123, 40123]
        \<and> requestedPorts (netCalls t) = [0, 40123])"
proof -
  let ?h = "\<lparr>GetTLSConfig_err = None,
           ParseIP = (\<lambda>s. if s = ''127.0.0.1''
                           then Some [0, 0, 0, 0, 0, 0, 0, 0, 0, 0, 0xff, 0xff, 127, 0, 0, 1 :: byte]
                         else if s = ''127.0.0.2''
                           then Some [0, 0, 0, 0, 0, 0, 0, 0, 0, 0, 0xff, 0xff, 127, 0, 0, 2]
                         else None),
           ListenUDP = (\<lambda>network bound ip p.
                          if network = ''udp4'' \<and> To4 ip = None then Inl ''non-IPv4 address''
                          else Inr (ip, if p = 0 then 40123 else p)),
           quic_Listen_err = (\<lambda>bound ip p. None),
           GetPrivateIP = Inr ''10.0.0.1'', GetFirstAddressOf = Inl ''no address found'',
           UDPAddr_String = (\<lambda>ip p. [])\<rparr>"
  let ?c = "flagDefaults\<lparr>BindAddrs := [''127.0.0.1'', ''127.0.0.2''], BindPort := 0\<rparr>"
  have z: "BindPort ?c = 0" by simp
  have k: "\<forall>bound ip p lip q.
             ListenUDP ?h ''udp4'' bound ip p = Inr (lip, q) \<longrightarrow> (if p = 0 then q \<noteq> 0 else q = p)"
    by (simp split: if_splits)
  have "case NewQuicTransport ?h ?c of
          Inl _ \<Rightarrow> False
        | Inr t \<Rightarrow> map Addr_Port (quicListeners t) = [40123, 40123]"
    by code_simp
  then obtain t where t: "NewQuicTransport ?h ?c = Inr t"
    and m: "map Addr_Port (quicListeners t) = [40123, 40123]"
    by (cases "NewQuicTransport ?h ?c") simp_all
  from auto_bind_port_is_shared [OF z k t] obtain p where
    p: "GetAutoBindPort t = Some p" "\<forall>l\<in>set (quicListeners t). Addr_Port l = p"
      "requestedPorts (netCalls t) = 0 # replicate (length (quicListeners t) - 1) p"
    by blast
  from m have len: "length (quicListeners t) = Suc (Suc 0)"
    by (metis length_map length_Cons list.size(3))
  from m obtain l ls where l: "quicListeners t = l # ls" "Addr_Port l = 40123"
    by (cases "quicListeners t") simp_all
  from p(2) l have e: "p = 40123" by simp
  have g: "GetAutoBindPort t = Some 40123" using p(1) e by simp
  have r: "requestedPorts (netCalls t) = [0, 40123]" using p(3) e len by simp
  show ?thesis
  proof (intro conjI exI)
    show "BindPort ?c = 0" by (rule z)
    show "NewQuicTransport ?h ?c = Inr t" by (rule t)
    show "GetAutoBindPort t = Some 40123" by (rule g)
    show "map Addr_Port (quicListeners t) = [40123, 40123]" by (rule m)
    show "requestedPorts (netCalls t) = [0, 40123]" by (rule r)
  qed
qed

text \<open>An address that \<^verbatim>\<open>net.ListenUDP\<close> refuses on \<^verbatim>\<open>udp4\<close> stops the loop with an
  error, at the latest when its turn comes.\<close>

lemma bindAll_refused_isl:
  assumes "ParseIP h a = Some ip"
      and "\<forall>bound port. \<exists>err. ListenUDP h ''udp4'' bound ip port = Inl err"
  shows "a \<in> set addrs \<Longrightarrow> isl (bindAll h addrs port t)"
proof (induction addrs arbitrary: port t)
  case Nil
  then show ?case by simp
next
  case (Cons x xs)
  show ?case
  proof (cases "x = a")
    case True
    from assms(2) obtain err where "ListenUDP h ''udp4'' (quicListeners t) ip port = Inl err"
      by blast
    with True assms(1) show ?thesis
      by (simp add: Let_def)
  next
    case False
    with Cons.prems have "a \<in> set xs" by simp
    from Cons.IH [OF this] show ?thesis
      by (simp add: Let_def split: option.split sum.split prod.split)
  qed
qed

text \<open>The loop binds on \<^verbatim>\<open>udp4\<close> only, however it ends.\<close>

lemma bindAll_udp4Only_Inl:
  "bindAll h addrs port t = Inl (e, t') \<Longrightarrow> list_all udp4Only (netCalls t) \<Longrightarrow>
   list_all udp4Only (netCalls t')"
  by (induction addrs arbitrary: port t)
     (auto simp: Let_def split: option.splits sum.splits prod.splits if_splits)

lemma bindAll_udp4Only_Inr:
  "bindAll h addrs port t = Inr t' \<Longrightarrow> list_all udp4Only (netCalls t) \<Longrightarrow>
   list_all udp4Only (netCalls t')"
  by (induction addrs arbitrary: port t)
     (auto simp: Let_def split: option.splits sum.splits prod.splits if_splits)

lemma NewQuicTransport_refused_fails:
  assumes "a \<in> set (BindAddrs config)" and "ParseIP h a = Some ip"
      and "\<forall>bound port. \<exists>err. ListenUDP h ''udp4'' bound ip port = Inl err"
  shows "\<exists>e t'. NewQuicTransport h config = Inl (e, t')"
proof -
  from assms(1) have ne: "length (BindAddrs config) \<noteq> 0" by auto
  have "isl (bindAll h (BindAddrs config) (BindPort config) (newTransport config))"
    by (rule bindAll_refused_isl [OF assms(2,3) assms(1)])
  then obtain e t1 where
    "bindAll h (BindAddrs config) (BindPort config) (newTransport config) = Inl (e, t1)"
    by (cases "bindAll h (BindAddrs config) (BindPort config) (newTransport config)") auto
  with ne show ?thesis
    by (simp add: NewQuicTransport_def Let_def split: option.split)
qed

lemma NewQuicTransport_udp4Only:
  "list_all udp4Only
     (netCalls (case NewQuicTransport h config of Inl (e, t') \<Rightarrow> t' | Inr t' \<Rightarrow> t'))"
proof -
  define config' where
    "config' = (if length (BindAddrs config) = 0
                then config\<lparr>BindAddrs := [zeroZeroZeroZero]\<rparr> else config)"
  have n: "list_all udp4Only (netCalls (newTransport config'))"
    by (simp add: newTransport_def)
  show ?thesis
    unfolding NewQuicTransport_def Let_def config'_def [symmetric]
    using n bindAll_udp4Only_Inl [of h "BindAddrs config'" "BindPort config'" "newTransport config'"]
      bindAll_udp4Only_Inr [of h "BindAddrs config'" "BindPort config'" "newTransport config'"]
    by (auto simp: Shutdown_def split: option.split sum.split)
qed

lemma NewQuicTransport_cfg:
  assumes "NewQuicTransport h config = Inr t"
  shows "BindAddrs (cfg t) =
           (if length (BindAddrs config) = 0 then [zeroZeroZeroZero] else BindAddrs config)"
proof -
  define config' where
    "config' = (if length (BindAddrs config) = 0
                then config\<lparr>BindAddrs := [zeroZeroZeroZero]\<rparr> else config)"
  from assms obtain t1 where
    b: "bindAll h (BindAddrs config') (BindPort config') (newTransport config') = Inr t1"
    and t: "t = t1\<lparr>wg := wg t1 + int (length (BindAddrs config'))\<rparr>"
    unfolding NewQuicTransport_def Let_def config'_def [symmetric]
    by (auto split: option.splits sum.splits prod.splits)
  from bindAll_cfg [OF b] have "cfg t = config'"
    by (simp add: t newTransport_def)
  then show ?thesis by (simp add: config'_def)
qed

text \<open>The address \<^verbatim>\<open>::\<close>, sixteen zero bytes, has no IPv4 form.\<close>

lemma To4_unspecified:
  "To4 [0, 0, 0, 0, 0, 0, 0, 0, 0, 0, 0, 0, 0, 0, 0, 0] = None"
  by code_simp

text \<open>
  Claim C10. \<open>NewQuicTransport\<close> opens every UDP socket, of every construction, on the
  network \<^verbatim>\<open>udp4\<close>. An IPv6 bind address such as \<^verbatim>\<open>::\<close> is one that
  \<^verbatim>\<open>net.ListenUDP\<close> refuses on that network (\<^verbatim>\<open>non-IPv4 address\<close>); this refusal is the
  standard library's, and is the hypothesis on the host. For a configuration with such an
  address among its bind addresses \<open>NewQuicTransport\<close> returns an error. And yet
  \<open>FinalAdvertiseAddr\<close> has a branch of its own for a transport whose first bind address
  is \<^verbatim>\<open>::\<close>, which takes the address from the lookup of a private IPv6 address; when
  \<^verbatim>\<open>::\<close> is refused, no transport that \<open>NewQuicTransport\<close> returns has it as first bind
  address.
\<close>

theorem ipv6_bind_address_fails_construction:
  assumes "a \<in> set (BindAddrs config)" and "ParseIP h a = Some ip"
      and "\<forall>bound port. \<exists>err. ListenUDP h ''udp4'' bound ip port = Inl err"
  shows "(\<exists>e t'. NewQuicTransport h config = Inl (e, t'))
       \<and> (\<forall>h' config'. list_all udp4Only
             (netCalls (case NewQuicTransport h' config' of Inl (e, t') \<Rightarrow> t' | Inr t' \<Rightarrow> t')))
       \<and> (\<forall>t port more. BindAddrs (cfg t) = colonColon # more \<longrightarrow>
             FinalAdvertiseAddr h [] port t =
               (case GetFirstAddressOf h of
                  Inl err \<Rightarrow> (Inl (FailedToGetPrivateInet6Address err), t)
                | Inr inet6Ip \<Rightarrow>
                    (case ParseIP h inet6Ip of
                       None \<Rightarrow> (Inl (FailedToParseInet6AdvertiseAddress []), t)
                     | Some advertiseIP \<Rightarrow> advertiseBound h advertiseIP t)))
       \<and> (a = colonColon \<longrightarrow>
             (\<forall>config' t. NewQuicTransport h config' = Inr t \<longrightarrow>
                (\<exists>first more. BindAddrs (cfg t) = first # more \<and> first \<noteq> colonColon)))"
proof -
  have 3: "FinalAdvertiseAddr h [] port t =
               (case GetFirstAddressOf h of
                  Inl err \<Rightarrow> (Inl (FailedToGetPrivateInet6Address err), t)
                | Inr inet6Ip \<Rightarrow>
                    (case ParseIP h inet6Ip of
                       None \<Rightarrow> (Inl (FailedToParseInet6AdvertiseAddress []), t)
                     | Some advertiseIP \<Rightarrow> advertiseBound h advertiseIP t))"
    if "BindAddrs (cfg t) = colonColon # more" for t port more
    using that by (simp add: FinalAdvertiseAddr_def colonColon_def zeroZeroZeroZero_def)
  have 4: "\<exists>first more. BindAddrs (cfg t) = first # more \<and> first \<noteq> colonColon"
    if c: "a = colonColon" and r: "NewQuicTransport h config' = Inr t" for config' t
  proof (cases "BindAddrs config'")
    case Nil
    with NewQuicTransport_cfg [OF r] show ?thesis
      by (simp add: colonColon_def zeroZeroZeroZero_def)
  next
    case (Cons first more)
    have "first \<noteq> colonColon"
    proof
      assume "first = colonColon"
      with Cons c have "a \<in> set (BindAddrs config')" by simp
      from NewQuicTransport_refused_fails [OF this assms(2,3)] r show False by simp
    qed
    with Cons NewQuicTransport_cfg [OF r] show ?thesis by simp
  qed
  from NewQuicTransport_refused_fails [OF assms] NewQuicTransport_udp4Only 3 4
  show ?thesis by blast
qed

text \<open>An instance: the bind addresses \<^verbatim>\<open>127.0.0.1\<close> and \<^verbatim>\<open>::\<close>, on a host that refuses
  on \<^verbatim>\<open>udp4\<close> an address without IPv4 form.\<close>

theorem ipv6_bind_address_fails_construction_witness:
  "''::'' \<in> set (BindAddrs (flagDefaults\<lparr>BindAddrs := [''127.0.0.1'', ''::'']\<rparr>))
   \<and> (\<exists>t'. NewQuicTransport
          \<lparr>GetTLSConfig_err = None,
           ParseIP = (\<lambda>s. if s = ''127.0.0.1''
                           then Some [0, 0, 0, 0, 0, 0, 0, 0, 0, 0, 0xff, 0xff, 127, 0, 0, 1]
                         else if s = ''::''
                           then Some [0, 0, 0, 0, 0, 0, 0, 0, 0, 0, 0, 0, 0, 0, 0, 0]
                         else None),
           ListenUDP = (\<lambda>network bound ip p.
                          if network = ''udp4'' \<and> To4 ip = None then Inl ''non-IPv4 address''
                          else Inr (ip, if p = 0 then 40123 else p)),
           quic_Listen_err = (\<lambda>bound ip p. None),
           GetPrivateIP = Inr ''10.0.0.1'', GetFirstAddressOf = Inl ''no address found'',
           UDPAddr_String = (\<lambda>ip p. [])\<rparr>
          (flagDefaults\<lparr>BindAddrs := [''127.0.0.1'', ''::'']\<rparr>)
        = Inl (FailedToStartUDPListener ''::'' 7946 ''non-IPv4 address'', t'))"
proof -
  let ?h = "\<lparr>GetTLSConfig_err = None,
           ParseIP = (\<lambda>s. if s = ''127.0.0.1''
                           then Some [0, 0, 0, 0, 0, 0, 0, 0, 0, 0, 0xff, 0xff, 127, 0, 0, 1 :: byte]
                         else if s = ''::''
                           then Some [0, 0, 0, 0, 0, 0, 0, 0, 0, 0, 0, 0, 0, 0, 0, 0]
                         else None),
           ListenUDP = (\<lambda>network bound ip p.
                          if network = ''udp4'' \<and> To4 ip = None then Inl ''non-IPv4 address''
                          else Inr (ip, if p = 0 then 40123 else p)),
           quic_Listen_err = (\<lambda>bound ip p. None),
           GetPrivateIP = Inr ''10.0.0.1'', GetFirstAddressOf = Inl ''no address found'',
           UDPAddr_String = (\<lambda>ip p. [])\<rparr>"
  let ?c = "flagDefaults\<lparr>BindAddrs := [''127.0.0.1'', ''::'']\<rparr>"
  let ?z = "[0, 0, 0, 0, 0, 0, 0, 0, 0, 0, 0, 0, 0, 0, 0, 0] :: byte list"
  have m: "''::'' \<in> set (BindAddrs ?c)" by simp
  have p: "ParseIP ?h ''::'' = Some ?z" by simp
  have z: "\<forall>bound port. \<exists>err. ListenUDP ?h ''udp4'' bound ?z port = Inl err"
    by (simp add: To4_unspecified)
  from ipv6_bind_address_fails_construction [OF m p z]
  obtain e t' where f: "NewQuicTransport ?h ?c = Inl (e, t')" by blast
  have "case NewQuicTransport ?h ?c of
          Inl (e, t') \<Rightarrow> e = FailedToStartUDPListener ''::'' 7946 ''non-IPv4 address''
        | Inr t \<Rightarrow> False"
    by code_simp
  with f have e: "e = FailedToStartUDPListener ''::'' 7946 ''non-IPv4 address''" by simp
  show ?thesis
  proof (intro conjI exI)
    show "''::'' \<in> set (BindAddrs ?c)" by (rule m)
    show "NewQuicTransport ?h ?c = Inl (FailedToStartUDPListener ''::'' 7946 ''non-IPv4 address'', t')"
      using f e by simp
  qed
qed

section \<open>Outbound channels and inbound listeners\<close>

text \<open>The channel of \<open>writeTo\<close> is there exactly when the dial succeeded, and is closed
  when the call returns.\<close>

lemma writeTo_channel:
  "(case Dial_err pr of
      Some e \<Rightarrow> fst (writeTo pr b addr t) = Some (DialFailed e)
                 \<and> fst (snd (writeTo pr b addr t)) = None
    | None \<Rightarrow> (\<exists>c. fst (snd (writeTo pr b addr t)) = Some c \<and> conn_closed c))"
  by (simp add: writeTo_def getConnection_def failed_def Let_def Close_def
        case_prod_beta split: option.split)

lemma WriteTo_channel:
  "fst (snd (WriteTo pr b addr t)) =
     fst (snd (writeTo pr b addr
       (t\<lparr>sentPackets := sentPackets t + 1, sentPacketsBytes := sentPacketsBytes t + length b\<rparr>)))"
  by (simp add: WriteTo_def Let_def case_prod_beta split: option.split)

lemma writeTo_channel_sent_counters:
  "fst (snd (writeTo pr b addr (t\<lparr>sentPackets := x, sentPacketsBytes := y\<rparr>))) =
   fst (snd (writeTo pr b addr t))"
  by (simp add: writeTo_def getConnection_def failed_def getAdvertisedAddr_def Let_def
        debugLog_def case_prod_beta split: option.split)

text \<open>What \<open>DialTimeout\<close> returns, from the answers of the dial and of the first write.\<close>

lemma DialTimeout_result:
  "fst (DialTimeout pr addr timeout t) =
     (case Dial_err pr of
        Some e \<Rightarrow> Inl e
      | None \<Rightarrow>
          (case Write_res pr 0 [stream] of
             (n, Some err) \<Rightarrow> Inl err
           | (n, None) \<Rightarrow>
               Inr \<lparr>written = take n [stream], writes = 1, deadline = None,
                    conn_closed = False\<rparr>))"
  by (simp add: DialTimeout_def getConnection_def Write_def case_prod_beta split: option.split)

text \<open>The construction makes listener calls only, and one \<^verbatim>\<open>quic.Transport.Listen\<close> for
  each listener.\<close>

lemma bindAll_listenerCall_Inl:
  "bindAll h addrs port t = Inl (e, t') \<Longrightarrow> list_all listenerCall (netCalls t) \<Longrightarrow>
   list_all listenerCall (netCalls t')"
  by (induction addrs arbitrary: port t)
     (auto simp: Let_def split: option.splits sum.splits prod.splits if_splits)

lemma bindAll_listenerCall_Inr:
  "bindAll h addrs port t = Inr t' \<Longrightarrow> list_all listenerCall (netCalls t) \<Longrightarrow>
   list_all listenerCall (netCalls t')"
  by (induction addrs arbitrary: port t)
     (auto simp: Let_def split: option.splits sum.splits prod.splits if_splits)

lemma bindAll_quicListened:
  "bindAll h addrs port t = Inr t' \<Longrightarrow>
   quicListened (netCalls t) = map (\<lambda>l. (Addr_IP l, Addr_Port l)) (quicListeners t) \<Longrightarrow>
   quicListened (netCalls t') = map (\<lambda>l. (Addr_IP l, Addr_Port l)) (quicListeners t')"
proof (induction addrs arbitrary: port t)
  case Nil
  then show ?case by simp
next
  case (Cons a addrs)
  from bindAll_Cons_Inr [OF Cons.prems(1)] obtain ip lip lport where
    r: "bindAll h addrs (if port = 0 then lport else port)
          (t\<lparr>netCalls := netCalls t @ [net_ListenUDP ''udp4'' ip port, quic_Transport_Listen lip lport],
             quicListeners := quicListeners t
               @ [\<lparr>Addr_IP = lip, Addr_Port = lport, listener_closed = False\<rparr>]\<rparr>) = Inr t'"
    by blast
  show ?case
    by (rule Cons.IH [OF r]) (use Cons.prems(2) in \<open>simp add: quicListened_def\<close>)
qed

lemma NewQuicTransport_listenerCall:
  "list_all listenerCall
     (netCalls (case NewQuicTransport h config of Inl (e, t') \<Rightarrow> t' | Inr t' \<Rightarrow> t'))"
proof -
  define config' where
    "config' = (if length (BindAddrs config) = 0
                then config\<lparr>BindAddrs := [zeroZeroZeroZero]\<rparr> else config)"
  have n: "list_all listenerCall (netCalls (newTransport config'))"
    by (simp add: newTransport_def)
  show ?thesis
    unfolding NewQuicTransport_def Let_def config'_def [symmetric]
    using n bindAll_listenerCall_Inl [of h "BindAddrs config'" "BindPort config'" "newTransport config'"]
      bindAll_listenerCall_Inr [of h "BindAddrs config'" "BindPort config'" "newTransport config'"]
    by (auto simp: Shutdown_def split: option.split sum.split)
qed

lemma NewQuicTransport_quicListened:
  assumes "NewQuicTransport h config = Inr t"
  shows "quicListened (netCalls t) = map (\<lambda>l. (Addr_IP l, Addr_Port l)) (quicListeners t)"
proof -
  define config' where
    "config' = (if length (BindAddrs config) = 0
                then config\<lparr>BindAddrs := [zeroZeroZeroZero]\<rparr> else config)"
  from assms obtain t1 where
    b: "bindAll h (BindAddrs config') (BindPort config') (newTransport config') = Inr t1"
    and t: "t = t1\<lparr>wg := wg t1 + int (length (BindAddrs config'))\<rparr>"
    unfolding NewQuicTransport_def Let_def config'_def [symmetric]
    by (auto split: option.splits sum.splits prod.splits)
  have "quicListened (netCalls t1) = map (\<lambda>l. (Addr_IP l, Addr_Port l)) (quicListeners t1)"
    by (rule bindAll_quicListened [OF b]) (simp add: newTransport_def quicListened_def)
  then show ?thesis by (simp add: t)
qed

lemma quicListened_append:
  "quicListened (xs @ ys) = quicListened xs @ quicListened ys"
  by (simp add: quicListened_def)

text \<open>
  Claim C9. \<open>getConnection\<close> opens the channel with \<^verbatim>\<open>tls.DialWithDialer\<close> on the
  network \<^verbatim>\<open>udp\<close> and returns what that dial returns. This dial is the one network call
  of every \<open>WriteTo\<close> (with the packet dial timeout) and of every \<open>DialTimeout\<close> (with
  the timeout given): when it fails there is no channel and its error is the error of the
  send or the result of \<open>DialTimeout\<close>; when it succeeds the packet frame, or the stream
  byte, is written to the channel it returned. Neither call adds a
  \<^verbatim>\<open>quic.Transport.Listen\<close>. The inbound side is the other way round: a construction
  makes no dial, and the listeners of a constructed transport are exactly the sockets
  \<^verbatim>\<open>quic.Transport.Listen\<close> was called on. So the outbound channels are TLS sessions
  over UDP sockets and never come from the quic package, which only the listeners use.
\<close>

theorem outbound_dials_tls_over_udp:
  "getConnection pr addr timeout t =
     ((case Dial_err pr of
         Some e \<Rightarrow> Inl e
       | None \<Rightarrow> Inr \<lparr>written = [], writes = 0, deadline = None, conn_closed = False\<rparr>),
      t\<lparr>netCalls := netCalls t @ [tls_DialWithDialer timeout ''udp'' addr]\<rparr>)
   \<and> netCalls (snd (snd (WriteTo pr b addr t))) =
       netCalls t @ [tls_DialWithDialer (PacketDialTimeout (cfg t)) ''udp'' addr]
   \<and> (case Dial_err pr of
         Some e \<Rightarrow> fst (writeTo pr b addr t) = Some (DialFailed e)
                    \<and> fst (snd (WriteTo pr b addr t)) = None
       | None \<Rightarrow> (\<exists>c. fst (snd (WriteTo pr b addr t)) = Some c \<and> conn_closed c))
   \<and> (length (advertiseAddr t) \<le> 255 \<and> Dial_err pr = None \<and> SetDeadline_err pr = None
        \<and> (\<forall>k buf. Write_res pr k buf = (length buf, None)) \<longrightarrow>
         (\<exists>c. fst (snd (WriteTo pr b addr t)) = Some c
             \<and> written c =
                 [packet, of_nat (length (advertiseAddr t))] @ advertiseAddr t @ b @ md5_Sum b))
   \<and> netCalls (snd (DialTimeout pr addr timeout t)) =
       netCalls t @ [tls_DialWithDialer timeout ''udp'' addr]
   \<and> fst (DialTimeout pr addr timeout t) =
       (case Dial_err pr of
          Some e \<Rightarrow> Inl e
        | None \<Rightarrow>
            (case Write_res pr 0 [stream] of
               (n, Some err) \<Rightarrow> Inl err
             | (n, None) \<Rightarrow>
                 Inr \<lparr>written = take n [stream], writes = 1, deadline = None,
                      conn_closed = False\<rparr>))
   \<and> quicListened (netCalls (snd (snd (WriteTo pr b addr t)))) = quicListened (netCalls t)
   \<and> quicListened (netCalls (snd (DialTimeout pr addr timeout t))) = quicListened (netCalls t)
   \<and> (\<forall>h config. list_all listenerCall
         (netCalls (case NewQuicTransport h config of Inl (e, t') \<Rightarrow> t' | Inr t' \<Rightarrow> t')))
   \<and> (\<forall>h config t'. NewQuicTransport h config = Inr t' \<longrightarrow>
         quicListened (netCalls t') =
           map (\<lambda>l. (Addr_IP l, Addr_Port l)) (quicListeners t'))"
proof -
  let ?t2 = "t\<lparr>sentPackets := sentPackets t + 1, sentPacketsBytes := sentPacketsBytes t + length b\<rparr>"
  have 1: "getConnection pr addr timeout t =
     ((case Dial_err pr of
         Some e \<Rightarrow> Inl e
       | None \<Rightarrow> Inr \<lparr>written = [], writes = 0, deadline = None, conn_closed = False\<rparr>),
      t\<lparr>netCalls := netCalls t @ [tls_DialWithDialer timeout ''udp'' addr]\<rparr>)"
    by (simp add: getConnection_def)
  have "netCalls (snd (snd (WriteTo pr b addr t))) = netCalls (snd (snd (writeTo pr b addr ?t2)))"
    by (simp add: WriteTo_def Let_def Log_fields case_prod_beta split: option.split)
  then have 2: "netCalls (snd (snd (WriteTo pr b addr t))) =
       netCalls t @ [tls_DialWithDialer (PacketDialTimeout (cfg t)) ''udp'' addr]"
    by (simp add: writeTo_netCalls)
  have ch: "fst (snd (WriteTo pr b addr t)) = fst (snd (writeTo pr b addr t))"
    unfolding WriteTo_channel
    by (rule writeTo_channel_sent_counters)
  have 3: "(case Dial_err pr of
         Some e \<Rightarrow> fst (writeTo pr b addr t) = Some (DialFailed e)
                    \<and> fst (snd (WriteTo pr b addr t)) = None
       | None \<Rightarrow> (\<exists>c. fst (snd (WriteTo pr b addr t)) = Some c \<and> conn_closed c))"
    unfolding ch by (rule writeTo_channel)
  have 4: "\<exists>c. fst (snd (WriteTo pr b addr t)) = Some c
             \<and> written c =
                 [packet, of_nat (length (advertiseAddr t))] @ advertiseAddr t @ b @ md5_Sum b"
    if "length (advertiseAddr t) \<le> 255 \<and> Dial_err pr = None \<and> SetDeadline_err pr = None
        \<and> (\<forall>k buf. Write_res pr k buf = (length buf, None))"
    unfolding ch using that writeTo_written [of t pr b addr] by blast
  have 5: "netCalls (snd (DialTimeout pr addr timeout t)) =
       netCalls t @ [tls_DialWithDialer timeout ''udp'' addr]"
    by (rule DialTimeout_netCalls)
  note 6 = DialTimeout_result [of pr addr timeout t]
  have 7: "quicListened (netCalls (snd (snd (WriteTo pr b addr t)))) = quicListened (netCalls t)"
    unfolding 2 by (simp add: quicListened_def)
  have 8: "quicListened (netCalls (snd (DialTimeout pr addr timeout t))) = quicListened (netCalls t)"
    unfolding 5 by (simp add: quicListened_def)
  note 9 = NewQuicTransport_listenerCall
  note 10 = NewQuicTransport_quicListened
  from 1 2 3 4 5 6 7 8 9 10 show ?thesis by blast
qed

text \<open>An instance: a refused dial, a send and a stream dial on a channel that opens, and the
  construction of a transport bound to \<^verbatim>\<open>127.0.0.1\<close>.\<close>

theorem outbound_dials_tls_over_udp_witness:
  "fst (writeTo
          \<lparr>Dial_err = Some ''dial udp 10.0.0.2:7946: connect: connection refused'',
           SetDeadline_err = None, Write_res = (\<lambda>k buf. (length buf, None)),
           Close_err = None, Now_deadline = 100, Now_return = 200\<rparr>
          [0x61, 0x62, 0x63] ''10.0.0.2:7946'' (newTransport flagDefaults))
     = Some (DialFailed ''dial udp 10.0.0.2:7946: connect: connection refused'')
   \<and> fst (snd (WriteTo
          \<lparr>Dial_err = Some ''dial udp 10.0.0.2:7946: connect: connection refused'',
           SetDeadline_err = None, Write_res = (\<lambda>k buf. (length buf, None)),
           Close_err = None, Now_deadline = 100, Now_return = 200\<rparr>
          [0x61, 0x62, 0x63] ''10.0.0.2:7946'' (newTransport flagDefaults))) = None
   \<and> (\<exists>c. fst (snd (WriteTo
          \<lparr>Dial_err = None, SetDeadline_err = None, Write_res = (\<lambda>k buf. (length buf, None)),
           Close_err = None, Now_deadline = 100, Now_return = 200\<rparr>
          [0x61, 0x62, 0x63] ''10.0.0.2:7946''
          ((newTransport flagDefaults)
             \<lparr>advertiseAddr := [0x31, 0x30, 0x2e, 0x30, 0x2e, 0x30, 0x2e, 0x31, 0x3a, 0x37, 0x39, 0x34, 0x36]\<rparr>)))
         = Some c
        \<and> written c =
            [0x02, 0x0d, 0x31, 0x30, 0x2e, 0x30, 0x2e, 0x30, 0x2e, 0x31, 0x3a, 0x37, 0x39, 0x34, 0x36,
             0x61, 0x62, 0x63,
             0x90, 0x01, 0x50, 0x98, 0x3c, 0xd2, 0x4f, 0xb0, 0xd6, 0x96, 0x3f, 0x7d, 0x28, 0xe1, 0x7f, 0x72])
   \<and> netCalls (snd (snd (WriteTo
          \<lparr>Dial_err = None, SetDeadline_err = None, Write_res = (\<lambda>k buf. (length buf, None)),
           Close_err = None, Now_deadline = 100, Now_return = 200\<rparr>
          [0x61, 0x62, 0x63] ''10.0.0.2:7946''
          ((newTransport flagDefaults)
             \<lparr>advertiseAddr := [0x31, 0x30, 0x2e, 0x30, 0x2e, 0x30, 0x2e, 0x31, 0x3a, 0x37, 0x39, 0x34, 0x36]\<rparr>))))
       = [tls_DialWithDialer 2000000000 ''udp'' ''10.0.0.2:7946'']
   \<and> fst (DialTimeout
          \<lparr>Dial_err = None, SetDeadline_err = None, Write_res = (\<lambda>k buf. (length buf, None)),
           Close_err = None, Now_deadline = 100, Now_return = 200\<rparr>
          ''10.0.0.2:7946'' 10000000000 (newTransport flagDefaults))
       = Inr \<lparr>written = [0x01], writes = 1, deadline = None, conn_closed = False\<rparr>
   \<and> (\<exists>t'. NewQuicTransport
          \<lparr>GetTLSConfig_err = None,
           ParseIP = (\<lambda>s. if s = ''127.0.0.1''
                           then Some [0, 0, 0, 0, 0, 0, 0, 0, 0, 0, 0xff, 0xff, 127, 0, 0, 1]
                         else None),
           ListenUDP = (\<lambda>network bound ip p.
                          if network = ''udp4'' \<and> To4 ip = None then Inl ''non-IPv4 address''
                          else Inr (ip, if p = 0 then 40123 else p)),
           quic_Listen_err = (\<lambda>bound ip p. None),
           GetPrivateIP = Inr ''10.0.0.1'', GetFirstAddressOf = Inl ''no address found'',
           UDPAddr_String = (\<lambda>ip p. [])\<rparr>
          (flagDefaults\<lparr>BindAddrs := [''127.0.0.1'']\<rparr>) = Inr t'
        \<and> quicListened (netCalls t') =
            [([0, 0, 0, 0, 0, 0, 0, 0, 0, 0, 0xff, 0xff, 127, 0, 0, 1], 7946)]
        \<and> list_all listenerCall (netCalls t'))"
proof -
  let ?a = "[0x31, 0x30, 0x2e, 0x30, 0x2e, 0x30, 0x2e, 0x31, 0x3a, 0x37, 0x39, 0x34, 0x36] :: byte list"
  let ?tA = "(newTransport flagDefaults)\<lparr>advertiseAddr := ?a\<rparr>"
  let ?t0 = "newTransport flagDefaults"
  let ?ok = "\<lparr>Dial_err = None, SetDeadline_err = None, Write_res = (\<lambda>k buf. (length buf, None)),
           Close_err = None, Now_deadline = 100, Now_return = 200\<rparr>"
  let ?no = "\<lparr>Dial_err = Some ''dial udp 10.0.0.2:7946: connect: connection refused'',
           SetDeadline_err = None, Write_res = (\<lambda>k buf. (length buf, None)),
           Close_err = None, Now_deadline = 100, Now_return = 200\<rparr>"
  let ?h = "\<lparr>GetTLSConfig_err = None,
           ParseIP = (\<lambda>s. if s = ''127.0.0.1''
                           then Some [0, 0, 0, 0, 0, 0, 0, 0, 0, 0, 0xff, 0xff, 127, 0, 0, 1 :: byte]
                         else None),
           ListenUDP = (\<lambda>network bound ip p.
                          if network = ''udp4'' \<and> To4 ip = None then Inl ''non-IPv4 address''
                          else Inr (ip, if p = 0 then 40123 else p)),
           quic_Listen_err = (\<lambda>bound ip p. None),
           GetPrivateIP = Inr ''10.0.0.1'', GetFirstAddressOf = Inl ''no address found'',
           UDPAddr_String = (\<lambda>ip p. [])\<rparr>"
  let ?c = "flagDefaults\<lparr>BindAddrs := [''127.0.0.1'']\<rparr>"
  note no = outbound_dials_tls_over_udp
    [where pr = ?no and b = "[0x61, 0x62, 0x63]" and addr = "''10.0.0.2:7946''" and t = ?t0
       and timeout = 10000000000]
  note ok = outbound_dials_tls_over_udp
    [where pr = ?ok and b = "[0x61, 0x62, 0x63]" and addr = "''10.0.0.2:7946''" and t = ?tA
       and timeout = 10000000000]
  note dt = outbound_dials_tls_over_udp
    [where pr = ?ok and b = "[0x61, 0x62, 0x63]" and addr = "''10.0.0.2:7946''" and t = ?t0
       and timeout = 10000000000]
  from no [THEN conjunct2, THEN conjunct2, THEN conjunct1]
  have r: "fst (writeTo ?no [0x61, 0x62, 0x63] ''10.0.0.2:7946'' ?t0)
             = Some (DialFailed ''dial udp 10.0.0.2:7946: connect: connection refused'')
           \<and> fst (snd (WriteTo ?no [0x61, 0x62, 0x63] ''10.0.0.2:7946'' ?t0)) = None"
    by simp
  have hy: "length (advertiseAddr ?tA) \<le> 255 \<and> Dial_err ?ok = None \<and> SetDeadline_err ?ok = None
        \<and> (\<forall>k buf. Write_res ?ok k buf = (length buf, None))"
    by simp
  from ok [THEN conjunct2, THEN conjunct2, THEN conjunct2, THEN conjunct1, THEN mp, OF hy]
  obtain c where c: "fst (snd (WriteTo ?ok [0x61, 0x62, 0x63] ''10.0.0.2:7946'' ?tA)) = Some c"
    and w: "written c = [packet, of_nat (length (advertiseAddr ?tA))] @ advertiseAddr ?tA
              @ [0x61, 0x62, 0x63] @ md5_Sum [0x61, 0x62, 0x63]"
    by blast
  from w have w': "written c =
            [0x02, 0x0d, 0x31, 0x30, 0x2e, 0x30, 0x2e, 0x30, 0x2e, 0x31, 0x3a, 0x37, 0x39, 0x34, 0x36,
             0x61, 0x62, 0x63,
             0x90, 0x01, 0x50, 0x98, 0x3c, 0xd2, 0x4f, 0xb0, 0xd6, 0x96, 0x3f, 0x7d, 0x28, 0xe1, 0x7f, 0x72]"
    by (simp add: md5_Sum_abc packet_def)
  from ok [THEN conjunct2, THEN conjunct1]
  have n: "netCalls (snd (snd (WriteTo ?ok [0x61, 0x62, 0x63] ''10.0.0.2:7946'' ?tA)))
             = [tls_DialWithDialer 2000000000 ''udp'' ''10.0.0.2:7946'']"
    by (simp add: newTransport_def flagDefaults_def Second_def Millisecond_def)
  from dt [THEN conjunct2, THEN conjunct2, THEN conjunct2, THEN conjunct2, THEN conjunct2,
           THEN conjunct1]
  have d: "fst (DialTimeout ?ok ''10.0.0.2:7946'' 10000000000 ?t0)
             = Inr \<lparr>written = [0x01], writes = 1, deadline = None, conn_closed = False\<rparr>"
    by (simp add: stream_def)
  have "case NewQuicTransport ?h ?c of
          Inl _ \<Rightarrow> False
        | Inr t \<Rightarrow> map (\<lambda>l. (Addr_IP l, Addr_Port l)) (quicListeners t) =
                    [([0, 0, 0, 0, 0, 0, 0, 0, 0, 0, 0xff, 0xff, 127, 0, 0, 1], 7946)]"
    by code_simp
  then obtain t' where t': "NewQuicTransport ?h ?c = Inr t'"
    and m: "map (\<lambda>l. (Addr_IP l, Addr_Port l)) (quicListeners t') =
              [([0, 0, 0, 0, 0, 0, 0, 0, 0, 0, 0xff, 0xff, 127, 0, 0, 1], 7946)]"
    by (cases "NewQuicTransport ?h ?c") simp_all
  note tail = dt [THEN conjunct2, THEN conjunct2, THEN conjunct2, THEN conjunct2, THEN conjunct2,
                  THEN conjunct2, THEN conjunct2, THEN conjunct2]
  from tail [THEN conjunct2, THEN spec, THEN spec, THEN spec, THEN mp, OF t'] m
  have q: "quicListened (netCalls t') =
             [([0, 0, 0, 0, 0, 0, 0, 0, 0, 0, 0xff, 0xff, 127, 0, 0, 1], 7946)]"
    by simp
  from tail [THEN conjunct1, THEN spec, THEN spec, of ?h ?c] t'
  have l: "list_all listenerCall (netCalls t')"
    by simp
  show ?thesis
  proof (intro conjI exI)
    show "fst (writeTo ?no [0x61, 0x62, 0x63] ''10.0.0.2:7946'' ?t0)
             = Some (DialFailed ''dial udp 10.0.0.2:7946: connect: connection refused'')"
      using r by (rule conjunct1)
    show "fst (snd (WriteTo ?no [0x61, 0x62, 0x63] ''10.0.0.2:7946'' ?t0)) = None"
      using r by (rule conjunct2)
    show "fst (snd (WriteTo ?ok [0x61, 0x62, 0x63] ''10.0.0.2:7946'' ?tA)) = Some c" by (rule c)
    show "written c =
            [0x02, 0x0d, 0x31, 0x30, 0x2e, 0x30, 0x2e, 0x30, 0x2e, 0x31, 0x3a, 0x37, 0x39, 0x34, 0x36,
             0x61, 0x62, 0x63,
             0x90, 0x01, 0x50, 0x98, 0x3c, 0xd2, 0x4f, 0xb0, 0xd6, 0x96, 0x3f, 0x7d, 0x28, 0xe1, 0x7f, 0x72]"
      by (rule w')
    show "netCalls (snd (snd (WriteTo ?ok [0x61, 0x62, 0x63] ''10.0.0.2:7946'' ?tA)))
             = [tls_DialWithDialer 2000000000 ''udp'' ''10.0.0.2:7946'']" by (rule n)
    show "fst (DialTimeout ?ok ''10.0.0.2:7946'' 10000000000 ?t0)
             = Inr \<lparr>written = [0x01], writes = 1, deadline = None, conn_closed = False\<rparr>"
      by (rule d)
    show "NewQuicTransport ?h ?c = Inr t'" by (rule t')
    show "quicListened (netCalls t') =
             [([0, 0, 0, 0, 0, 0, 0, 0, 0, 0, 0xff, 0xff, 127, 0, 0, 1], 7946)]" by (rule q)
    show "list_all listenerCall (netCalls t')" by (rule l)
  qed
qed

end
